theory Spec2Isabelle
  imports Complex_Main "HOL-Library.Word"
begin

unbundle bit_operations_syntax

section \<open>Host values\<close>

text \<open>
  The functions of \<^verbatim>\<open>src/lib/h3core.js\<close> are dynamically typed. Arguments whose type the
  code inspects (\<^verbatim>\<open>typeof\<close>) are modelled as \<open>jsval\<close>. A number that the identifier codec
  produces or consumes is an integer or NaN (\<open>jsint\<close>): \<^verbatim>\<open>parseInt\<close> yields nothing else, and
  the words read back from the engine are 32-bit integers.
\<close>

datatype jsval =
    Undefined
  | Null
  | Boolean bool
  | Number real
  | NotANumber
  | Infinity bool
  | Str string
  | Arr "jsval list"

datatype jsint = IntV int | NaN

text \<open>
  The errors the code raises. \<open>InvalidResolution v\<close> stands for
  \<^verbatim>\<open>Error(`Invalid resolution: ${res}`)\<close>, \<open>UnknownUnit v\<close> for
  \<^verbatim>\<open>Error(`Unknown unit: ${unit}`)\<close>, \<open>Failure msg\<close> for an \<^verbatim>\<open>Error\<close> with a fixed
  message, and \<open>TypeError\<close> for the host's own error on reading a property of
  \<^verbatim>\<open>undefined\<close>.
\<close>

datatype error =
    InvalidResolution jsval
  | UnknownUnit jsval
  | Failure string
  | TypeError

text \<open>\<^verbatim>\<open>typeof v === 'string'\<close> and \<^verbatim>\<open>typeof v === 'number'\<close>.\<close>

fun is_string :: "jsval \<Rightarrow> bool" where
  "is_string (Str s) = True"
| "is_string v = False"

fun is_number :: "jsval \<Rightarrow> bool" where
  "is_number (Number r) = True"
| "is_number NotANumber = True"
| "is_number (Infinity b) = True"
| "is_number v = False"

section \<open>Hexadecimal primitives of the host\<close>

definition BASE_16 :: nat where
  "BASE_16 = 16"

text \<open>The value of one digit in radix 16; \<^verbatim>\<open>parseInt\<close> accepts both letter cases.\<close>

definition digit_value :: "char \<Rightarrow> nat option" where
  "digit_value c =
     (let k = of_char c :: nat in
      if 48 \<le> k \<and> k \<le> 57 then Some (k - 48)
      else if 97 \<le> k \<and> k \<le> 102 then Some (k - 87)
      else if 65 \<le> k \<and> k \<le> 70 then Some (k - 55)
      else None)"

definition is_digit16 :: "char \<Rightarrow> bool" where
  "is_digit16 c = (digit_value c \<noteq> None)"

definition is_space :: "char \<Rightarrow> bool" where
  "is_space c = (of_char c \<in> {9, 10, 11, 12, 13, 32, 160 :: nat})"

definition digits_value :: "string \<Rightarrow> nat" where
  "digits_value ds = foldl (\<lambda>acc c. acc * BASE_16 + the (digit_value c)) 0 ds"

text \<open>
  \<^verbatim>\<open>parseInt(str, 16)\<close>: leading white space is skipped, then an optional sign, then an
  optional \<^verbatim>\<open>0x\<close>; the longest run of digits that follows is the number, and NaN when
  that run is empty. The host rounds to a double; the model is exact, which agrees with
  the host for up to 13 digits (below \<open>2 ^ 53\<close>).
\<close>

fun strip_0x :: "string \<Rightarrow> string" where
  "strip_0x (a # b # rest) =
     (if a = CHR ''0'' \<and> (b = CHR ''x'' \<or> b = CHR ''X'') then rest else a # b # rest)"
| "strip_0x s = s"

fun parse_sign :: "string \<Rightarrow> bool \<times> string" where
  "parse_sign (c # rest) =
     (if c = CHR ''-'' then (True, rest)
      else if c = CHR ''+'' then (False, rest)
      else (False, c # rest))"
| "parse_sign [] = (False, [])"

definition parseInt16 :: "string \<Rightarrow> jsint" where
  "parseInt16 str =
     (let (neg, body) = parse_sign (dropWhile is_space str);
          ds = takeWhile is_digit16 (strip_0x body)
      in if ds = [] then NaN
         else IntV (if neg then - int (digits_value ds) else int (digits_value ds)))"

text \<open>\<^verbatim>\<open>num.toString(16)\<close> on an integer: lowercase digits, no leading zero, a minus sign.\<close>

definition digit_char :: "nat \<Rightarrow> char" where
  "digit_char d = ''0123456789abcdef'' ! d"

fun hex_digits :: "nat \<Rightarrow> string" where
  "hex_digits n =
     (if n < 16 then [digit_char n] else hex_digits (n div 16) @ [digit_char (n mod 16)])"

declare hex_digits.simps [simp del]

fun toString16 :: "jsint \<Rightarrow> string" where
  "toString16 NaN = ''NaN''"
| "toString16 (IntV n) =
     (if n < 0 then CHR ''-'' # hex_digits (nat (- n)) else hex_digits (nat n))"

text \<open>
  \<^verbatim>\<open>str.substring(start, end)\<close> and \<^verbatim>\<open>str.substring(start)\<close>: each index is clamped to
  \<open>[0, length]\<close> and the two are swapped when the first is the larger.
\<close>

definition clamp_index :: "string \<Rightarrow> int \<Rightarrow> nat" where
  "clamp_index s i = min (nat i) (length s)"

definition substring :: "string \<Rightarrow> int \<Rightarrow> int \<Rightarrow> string" where
  "substring s i j =
     (let a = clamp_index s i; b = clamp_index s j
      in take (max a b - min a b) (drop (min a b) s))"

definition substring_from :: "string \<Rightarrow> int \<Rightarrow> string" where
  "substring_from s i = drop (clamp_index s i) s"

text \<open>\<^verbatim>\<open>str.charAt(i)\<close>: the empty string out of range.\<close>

definition charAt :: "string \<Rightarrow> nat \<Rightarrow> string" where
  "charAt s i = (if i < length s then [s ! i] else [])"

text \<open>\<^verbatim>\<open>a + 8\<close> on a codec number, and \<^verbatim>\<open>num >= 0\<close> (false for NaN).\<close>

fun js_plus :: "jsint \<Rightarrow> int \<Rightarrow> jsint" where
  "js_plus (IntV n) k = IntV (n + k)"
| "js_plus NaN k = NaN"

fun js_ge0 :: "jsint \<Rightarrow> bool" where
  "js_ge0 (IntV n) = (0 \<le> n)"
| "js_ge0 NaN = False"

text \<open>
  \<^verbatim>\<open>num & 0x7fffffff\<close>: the operand goes through ToInt32 (NaN becomes 0); the low 31 bits
  of the two's complement value remain.
\<close>

fun js_and_7fffffff :: "jsint \<Rightarrow> jsint" where
  "js_and_7fffffff (IntV n) = IntV (n AND 0x7fffffff)"
| "js_and_7fffffff NaN = IntV 0"

section \<open>Utilities and helpers\<close>

subsection \<open>Identifier codec\<close>

text \<open>\<^verbatim>\<open>zeroPad\<close>: the loop appends one \<^verbatim>\<open>'0'\<close> per missing position, then the string.\<close>

fun zeroPad_loop :: "nat \<Rightarrow> string \<Rightarrow> string" where
  "zeroPad_loop 0 outStr = outStr"
| "zeroPad_loop (Suc k) outStr = zeroPad_loop k (outStr @ ''0'')"

definition zeroPad :: "nat \<Rightarrow> string \<Rightarrow> string" where
  "zeroPad fullLen numStr = zeroPad_loop (fullLen - length numStr) [] @ numStr"

text \<open>
  \<^verbatim>\<open>h3AddressToSplitLong\<close>: the pair is \<open>(lower, upper)\<close>, as the source's array. In
  \<^verbatim>\<open>hexFrom32Bit\<close> the string \<^verbatim>\<open>tempStr\<close> has eight characters, so \<^verbatim>\<open>tempStr[0]\<close> is its
  first character.
\<close>

fun h3AddressToSplitLong :: "jsval \<Rightarrow> jsint \<times> jsint" where
  "h3AddressToSplitLong (Str h3Address) =
     (let upper = parseInt16 (substring h3Address 0 (int (length h3Address) - 8));
          lower = parseInt16 (substring_from h3Address (int (length h3Address) - 8))
      in (lower, upper))"
| "h3AddressToSplitLong v = (IntV 0, IntV 0)"

definition hexFrom32Bit :: "jsint \<Rightarrow> string" where
  "hexFrom32Bit num =
     (if js_ge0 num then toString16 num
      else
        let num' = js_and_7fffffff num;
            tempStr = zeroPad 8 (toString16 num');
            topNum = toString16 (js_plus (parseInt16 (charAt tempStr 0)) 8)
        in topNum @ substring_from tempStr 1)"

definition splitLongToH3Address :: "jsint \<Rightarrow> jsint \<Rightarrow> string" where
  "splitLongToH3Address lower upper = hexFrom32Bit upper @ zeroPad 8 (hexFrom32Bit lower)"

subsection \<open>Resolution of an identifier string\<close>

fun h3GetResolution :: "jsval \<Rightarrow> jsint" where
  "h3GetResolution (Str h3Address) = parseInt16 (charAt h3Address 1)"
| "h3GetResolution v = IntV (- 1)"


section \<open>Foreign memory\<close>

text \<open>
  The engine's heap is seen through two typed views, as in the source: \<open>HEAP32\<close>, indexed
  by \<open>address div 4\<close>, holds the 32-bit cells (counts, pointers, identifier words), and
  \<open>HEAPF64\<close>, indexed by \<open>address div 8\<close>, holds the doubles, idealised as reals. The
  two views are kept apart: inside the records it builds or is handed, the source reads
  each location through the view that wrote it.
\<close>

record memory =
  HEAP32 :: "nat \<Rightarrow> 32 word"
  HEAPF64 :: "nat \<Rightarrow> real"

text \<open>
  The runtime around the heap. The allocator belongs to the engine's runtime and is not
  part of the source: \<open>fresh w k\<close> is the address it returns for its \<open>k\<close>-th request.
  The model logs every address handed out (\<open>allocated\<close>), every address passed to
  \<^verbatim>\<open>_free\<close> (\<open>freed\<close>), and every engine entry point invoked (\<open>calls\<close>, with the
  integer status the entry point returned, if it returns one).
\<close>

record runtime =
  mem :: memory
  fresh :: "nat \<Rightarrow> nat"
  allocated :: "nat list"
  freed :: "nat list"
  calls :: "(string \<times> int option) list"

definition SZ_INT :: nat where "SZ_INT = 4"
definition SZ_PTR :: nat where "SZ_PTR = 4"
definition SZ_DBL :: nat where "SZ_DBL = 8"

definition malloc :: "nat \<Rightarrow> runtime \<Rightarrow> nat \<times> runtime" where
  "malloc bytes w =
     (let p = fresh w (length (allocated w))
      in (p, w\<lparr>allocated := allocated w @ [p]\<rparr>))"

text \<open>
  \<^verbatim>\<open>_calloc(n, size)\<close>: a fresh block whose \<open>n * size\<close> bytes are zero in both views.
  The count is a host number and may be negative (an estimate of \<open>-1\<close> from the engine):
  it then reaches the allocator as an unsigned count of at least \<open>2 ^ 31\<close>, a request
  that, for a non-zero element size, exceeds the 32-bit heap; the allocator returns the
  null address 0, which the log records like any other address returned.
\<close>

definition zero_fill :: "nat \<Rightarrow> nat \<Rightarrow> memory \<Rightarrow> memory" where
  "zero_fill p len m =
     \<lparr>HEAP32 = (\<lambda>i. if p \<le> 4 * i \<and> 4 * i < p + len then 0 else HEAP32 m i),
      HEAPF64 = (\<lambda>i. if p \<le> 8 * i \<and> 8 * i < p + len then 0 else HEAPF64 m i)\<rparr>"

definition calloc :: "int \<Rightarrow> nat \<Rightarrow> runtime \<Rightarrow> nat \<times> runtime" where
  "calloc n bytes w =
     (if n < 0 \<and> 0 < bytes then (0, w\<lparr>allocated := allocated w @ [0]\<rparr>)
      else
        let (p, w1) = malloc (nat n * bytes) w
        in (p, w1\<lparr>mem := zero_fill p (nat n * bytes) (mem w1)\<rparr>))"

definition free :: "nat \<Rightarrow> runtime \<Rightarrow> runtime" where
  "free p w = w\<lparr>freed := freed w @ [p]\<rparr>"

text \<open>
  \<^verbatim>\<open>C.getValue(ptr, type)\<close> and \<^verbatim>\<open>C.setValue(ptr, value, 'i32')\<close>. An \<^verbatim>\<open>'i32'\<close> read is
  signed; a pointer read (\<^verbatim>\<open>'i8*'\<close>) is the same cell, used as an address.
\<close>

definition getValue_i32 :: "memory \<Rightarrow> nat \<Rightarrow> int" where
  "getValue_i32 m ptr = sint (HEAP32 m (ptr div 4))"

definition getValue_ptr :: "memory \<Rightarrow> nat \<Rightarrow> nat" where
  "getValue_ptr m ptr = unat (HEAP32 m (ptr div 4))"

definition getValue_double :: "memory \<Rightarrow> nat \<Rightarrow> real" where
  "getValue_double m ptr = HEAPF64 m (ptr div 8)"

definition setValue_i32 :: "nat \<Rightarrow> 32 word \<Rightarrow> memory \<Rightarrow> memory" where
  "setValue_i32 ptr v m = m\<lparr>HEAP32 := (HEAP32 m)(ptr div 4 := v)\<rparr>"

text \<open>\<^verbatim>\<open>C.HEAPU32.set(values, index)\<close> and \<^verbatim>\<open>C.HEAPF64.set(values, index)\<close>.\<close>

fun HEAPU32_set :: "32 word list \<Rightarrow> nat \<Rightarrow> memory \<Rightarrow> memory" where
  "HEAPU32_set [] index m = m"
| "HEAPU32_set (v # vs) index m =
     HEAPU32_set vs (index + 1) (m\<lparr>HEAP32 := (HEAP32 m)(index := v)\<rparr>)"

fun HEAPF64_set :: "real list \<Rightarrow> nat \<Rightarrow> memory \<Rightarrow> memory" where
  "HEAPF64_set [] index m = m"
| "HEAPF64_set (v # vs) index m =
     HEAPF64_set vs (index + 1) (m\<lparr>HEAPF64 := (HEAPF64 m)(index := v)\<rparr>)"

text \<open>A codec number stored into an unsigned 32-bit cell (ToUint32; NaN becomes 0).\<close>

fun toUint32 :: "jsint \<Rightarrow> 32 word" where
  "toUint32 (IntV n) = word_of_int n"
| "toUint32 NaN = 0"

section \<open>The engine\<close>

text \<open>
  The bound functions \<^verbatim>\<open>H3.*\<close> and the struct sizes they report are the compiled engine,
  which is not part of the source; they are parameters of the model. An entry point
  receives the arguments the source passes and the heap, and returns its integer result
  and the heap it leaves. It has no access to the allocation log. A capacity estimate is
  the engine's 32-bit integer, so it is an \<open>int\<close>: nothing keeps it from being negative.
\<close>

record engine =
  sizeOfH3Index :: nat
  sizeOfGeoCoord :: nat
  sizeOfGeoBoundary :: nat
  sizeOfGeoPolygon :: nat
  sizeOfGeofence :: nat
  H3_h3ToGeo :: "jsint \<Rightarrow> jsint \<Rightarrow> nat \<Rightarrow> memory \<Rightarrow> memory"
  H3_h3ToGeoBoundary :: "jsint \<Rightarrow> jsint \<Rightarrow> nat \<Rightarrow> memory \<Rightarrow> memory"
  H3_getH3UnidirectionalEdgeBoundary :: "jsint \<Rightarrow> jsint \<Rightarrow> nat \<Rightarrow> memory \<Rightarrow> memory"
  H3_maxH3ToChildrenSize :: "jsint \<Rightarrow> jsint \<Rightarrow> jsval \<Rightarrow> int"
  H3_h3ToChildren :: "jsint \<Rightarrow> jsint \<Rightarrow> jsval \<Rightarrow> nat \<Rightarrow> memory \<Rightarrow> memory"
  H3_maxKringSize :: "nat \<Rightarrow> int"
  H3_kRingDistances :: "jsint \<Rightarrow> jsint \<Rightarrow> nat \<Rightarrow> nat \<Rightarrow> nat \<Rightarrow> memory \<Rightarrow> memory"
  H3_kRing :: "jsint \<Rightarrow> jsint \<Rightarrow> nat \<Rightarrow> nat \<Rightarrow> memory \<Rightarrow> memory"
  H3_hexRing :: "jsint \<Rightarrow> jsint \<Rightarrow> nat \<Rightarrow> nat \<Rightarrow> memory \<Rightarrow> int \<times> memory"
  H3_maxPolyfillSize :: "nat \<Rightarrow> jsval \<Rightarrow> memory \<Rightarrow> int"
  H3_polyfill :: "nat \<Rightarrow> jsval \<Rightarrow> nat \<Rightarrow> memory \<Rightarrow> memory"
  H3_compact :: "nat \<Rightarrow> nat \<Rightarrow> nat \<Rightarrow> memory \<Rightarrow> int \<times> memory"
  H3_maxUncompactSize :: "nat \<Rightarrow> nat \<Rightarrow> jsval \<Rightarrow> memory \<Rightarrow> int"
  H3_uncompact :: "nat \<Rightarrow> nat \<Rightarrow> nat \<Rightarrow> int \<Rightarrow> jsval \<Rightarrow> memory \<Rightarrow> int \<times> memory"
  H3_getH3IndexesFromUnidirectionalEdge :: "jsint \<Rightarrow> jsint \<Rightarrow> nat \<Rightarrow> memory \<Rightarrow> memory"
  H3_getH3UnidirectionalEdgesFromHexagon :: "jsint \<Rightarrow> jsint \<Rightarrow> nat \<Rightarrow> memory \<Rightarrow> memory"
  H3_hexAreaM2 :: "jsval \<Rightarrow> real"
  H3_hexAreaKm2 :: "jsval \<Rightarrow> real"
  H3_edgeLengthM :: "jsval \<Rightarrow> real"
  H3_edgeLengthKm :: "jsval \<Rightarrow> real"

text \<open>An engine call is logged under its name; the heap becomes the one the engine leaves.\<close>

definition invoke :: "string \<Rightarrow> int option \<Rightarrow> memory \<Rightarrow> runtime \<Rightarrow> runtime" where
  "invoke name status m w = w\<lparr>mem := m, calls := calls w @ [(name, status)]\<rparr>"

subsection \<open>Coordinate transform\<close>

definition degsToRads :: "real \<Rightarrow> real" where
  "degsToRads deg = (deg * pi) / 180"

definition radsToDegs :: "real \<Rightarrow> real" where
  "radsToDegs rad = (rad * 180) / pi"

definition constrainLat :: "real \<Rightarrow> real" where
  "constrainLat lat = (if lat > 90 then lat - 180 else lat)"

definition constrainLng :: "real \<Rightarrow> real" where
  "constrainLng lng = (if lng > 180 then lng - 360 else lng)"

subsection \<open>Validation\<close>

text \<open>\<^verbatim>\<open>validateRes\<close>: \<open>Some e\<close> is the error thrown, \<open>None\<close> a normal return.\<close>

fun validateRes :: "jsval \<Rightarrow> error option" where
  "validateRes (Number res) =
     (if res < 0 \<or> res > 15 \<or> real_of_int (floor res) \<noteq> res
      then Some (InvalidResolution (Number res)) else None)"
| "validateRes res = Some (InvalidResolution res)"


subsection \<open>Geometry structs\<close>

text \<open>
  A coordinate pair is a two-element array; \<open>coord_at\<close> is the element read
  \<^verbatim>\<open>pair[index]\<close> for index 0 or 1. A loop is a list of pairs.
\<close>

type_synonym coord_pair = "real \<times> real"

definition coord_at :: "coord_pair \<Rightarrow> nat \<Rightarrow> real" where
  "coord_at pair index = (if index = 0 then fst pair else snd pair)"

function polygonArrayToGeofence_loop ::
  "coord_pair list \<Rightarrow> nat \<Rightarrow> nat \<Rightarrow> nat \<Rightarrow> nat \<Rightarrow> memory \<Rightarrow> memory" where
  "polygonArrayToGeofence_loop polygonArray geoCoordArray latIndex lngIndex i m =
     (if i < length polygonArray * 2 then
        polygonArrayToGeofence_loop polygonArray geoCoordArray latIndex lngIndex (i + 2)
          (HEAPF64_set
             (map degsToRads
                [constrainLat (coord_at (polygonArray ! (i div 2)) latIndex),
                 constrainLng (coord_at (polygonArray ! (i div 2)) lngIndex)])
             (geoCoordArray div SZ_DBL + i) m)
      else m)"
  by pat_completeness auto
termination
  by (relation "measure (\<lambda>(polygonArray, geoCoordArray, latIndex, lngIndex, i, m).
        length polygonArray * 2 - i)") auto

declare polygonArrayToGeofence_loop.simps [simp del]

definition polygonArrayToGeofence ::
  "engine \<Rightarrow> coord_pair list \<Rightarrow> nat \<Rightarrow> bool \<Rightarrow> runtime \<Rightarrow> nat \<times> runtime" where
  "polygonArrayToGeofence eng polygonArray geofence isGeoJson w =
     (let numVerts = length polygonArray;
          (geoCoordArray, w1) = calloc (int numVerts) (sizeOfGeoCoord eng) w;
          latIndex = (if isGeoJson then 1 else 0);
          lngIndex = (if isGeoJson then 0 else 1);
          m1 = polygonArrayToGeofence_loop polygonArray geoCoordArray latIndex lngIndex 0 (mem w1);
          m2 = HEAPU32_set [of_nat numVerts, of_nat geoCoordArray] (geofence div SZ_INT) m1
      in (geofence, w1\<lparr>mem := m2\<rparr>))"

text \<open>The loop over the holes of \<^verbatim>\<open>coordinatesToGeoPolygon\<close>.\<close>

function coordinatesToGeoPolygon_holes ::
  "engine \<Rightarrow> coord_pair list list \<Rightarrow> bool \<Rightarrow> nat \<Rightarrow> nat \<Rightarrow> runtime \<Rightarrow> runtime" where
  "coordinatesToGeoPolygon_holes eng coordinates isGeoJson holes i w =
     (if int i < int (length coordinates) - 1 then
        coordinatesToGeoPolygon_holes eng coordinates isGeoJson holes (i + 1)
          (snd (polygonArrayToGeofence eng (coordinates ! (i + 1))
                  (holes + sizeOfGeofence eng * i) isGeoJson w))
      else w)"
  by pat_completeness auto
termination
  by (relation "measure (\<lambda>(eng, coordinates, isGeoJson, holes, i, w).
        length coordinates - i)") auto

declare coordinatesToGeoPolygon_holes.simps [simp del]

text \<open>
  \<^verbatim>\<open>coordinatesToGeoPolygon\<close>. The source calls \<^verbatim>\<open>C._calloc(SZ_GEOPOLYGON)\<close> with one
  argument: the element size reaches the runtime as \<^verbatim>\<open>undefined\<close>, that is 0. With no
  hole the variable \<^verbatim>\<open>holes\<close> stays \<^verbatim>\<open>undefined\<close> and is stored as 0. On an empty
  list \<^verbatim>\<open>coordinates[0]\<close> is \<^verbatim>\<open>undefined\<close> and reading its length raises.
\<close>

definition coordinatesToGeoPolygon ::
  "engine \<Rightarrow> coord_pair list list \<Rightarrow> bool \<Rightarrow> runtime \<Rightarrow> (error + nat) \<times> runtime" where
  "coordinatesToGeoPolygon eng coordinates isGeoJson w =
     (let numHoles = int (length coordinates) - 1;
          (geoPolygon, w1) = calloc (int (sizeOfGeoPolygon eng)) 0 w;
          geofenceOffset = 0;
          numHolesOffset = geofenceOffset + sizeOfGeofence eng;
          holesOffset = numHolesOffset + SZ_INT
      in if coordinates = [] then (Inl TypeError, w1)
         else
           let (g, w2) = polygonArrayToGeofence eng (coordinates ! 0)
                           (geoPolygon + geofenceOffset) isGeoJson w1;
               (holes, w4) =
                 (if numHoles > 0 then
                    let (holes, w3) = calloc numHoles (sizeOfGeofence eng) w2
                    in (holes, coordinatesToGeoPolygon_holes eng coordinates isGeoJson holes 0 w3)
                  else (0, w2));
               m5 = setValue_i32 (geoPolygon + numHolesOffset) (word_of_int numHoles) (mem w4);
               m6 = setValue_i32 (geoPolygon + holesOffset) (of_nat holes) m5
           in (Inr geoPolygon, w4\<lparr>mem := m6\<rparr>))"

function destroyGeoPolygon_loop :: "engine \<Rightarrow> nat \<Rightarrow> int \<Rightarrow> nat \<Rightarrow> runtime \<Rightarrow> runtime" where
  "destroyGeoPolygon_loop eng geoPolygon numHoles i w =
     (if int i < numHoles then
        destroyGeoPolygon_loop eng geoPolygon numHoles (i + 1)
          (free (getValue_ptr (mem w)
                   (geoPolygon + (0 + sizeOfGeofence eng + SZ_INT) + sizeOfGeofence eng * i)) w)
      else w)"
  by pat_completeness auto
termination
  by (relation "measure (\<lambda>(eng, geoPolygon, numHoles, i, w). nat numHoles - i)") auto

declare destroyGeoPolygon_loop.simps [simp del]

definition destroyGeoPolygon :: "engine \<Rightarrow> nat \<Rightarrow> runtime \<Rightarrow> runtime" where
  "destroyGeoPolygon eng geoPolygon w =
     (let geofenceOffset = 0;
          numHolesOffset = geofenceOffset + sizeOfGeofence eng;
          w1 = free (getValue_ptr (mem w) (geoPolygon + geofenceOffset)) w;
          numHoles = getValue_i32 (mem w1) (geoPolygon + numHolesOffset);
          w2 = destroyGeoPolygon_loop eng geoPolygon numHoles 0 w1
      in free geoPolygon w2)"

subsection \<open>Reading identifiers\<close>

function readArrayOfHexagons_loop ::
  "memory \<Rightarrow> nat \<Rightarrow> int \<Rightarrow> nat \<Rightarrow> string list \<Rightarrow> string list" where
  "readArrayOfHexagons_loop m cAddress maxCount i out =
     (if int i < maxCount * 2 then
        let lower = getValue_i32 m (cAddress + SZ_INT * i);
            upper = getValue_i32 m (cAddress + SZ_INT * (i + 1))
        in readArrayOfHexagons_loop m cAddress maxCount (i + 2)
             (if lower \<noteq> 0 \<or> upper \<noteq> 0
              then out @ [splitLongToH3Address (IntV lower) (IntV upper)]
              else out)
      else out)"
  by pat_completeness auto
termination
  by (relation "measure (\<lambda>(m, cAddress, maxCount, i, out). nat (maxCount * 2) - i)") auto

declare readArrayOfHexagons_loop.simps [simp del]

definition readArrayOfHexagons :: "memory \<Rightarrow> nat \<Rightarrow> int \<Rightarrow> string list" where
  "readArrayOfHexagons m cAddress maxCount = readArrayOfHexagons_loop m cAddress maxCount 0 []"

function storeArrayOfHexagons_loop :: "nat \<Rightarrow> jsval list \<Rightarrow> nat \<Rightarrow> memory \<Rightarrow> memory" where
  "storeArrayOfHexagons_loop cAddress hexagons i m =
     (if i < length hexagons then
        storeArrayOfHexagons_loop cAddress hexagons (i + 1)
          (let (lower, upper) = h3AddressToSplitLong (hexagons ! i)
           in HEAPU32_set [toUint32 lower, toUint32 upper] (cAddress div SZ_INT + 2 * i) m)
      else m)"
  by pat_completeness auto
termination
  by (relation "measure (\<lambda>(cAddress, hexagons, i, m). length hexagons - i)") auto

declare storeArrayOfHexagons_loop.simps [simp del]

definition storeArrayOfHexagons :: "nat \<Rightarrow> jsval list \<Rightarrow> memory \<Rightarrow> memory" where
  "storeArrayOfHexagons cAddress hexagons m = storeArrayOfHexagons_loop cAddress hexagons 0 m"

subsection \<open>Reading coordinates\<close>

definition readSingleCoord :: "memory \<Rightarrow> nat \<Rightarrow> real" where
  "readSingleCoord m cAddress = radsToDegs (getValue_double m cAddress)"

definition readGeoCoord :: "memory \<Rightarrow> nat \<Rightarrow> jsval" where
  "readGeoCoord m cAddress =
     Arr [Number (constrainLat (readSingleCoord m cAddress)),
          Number (constrainLng (readSingleCoord m (cAddress + SZ_DBL)))]"

definition readGeoCoordGeoJson :: "memory \<Rightarrow> nat \<Rightarrow> jsval" where
  "readGeoCoordGeoJson m cAddress =
     Arr [Number (constrainLng (readSingleCoord m (cAddress + SZ_DBL))),
          Number (constrainLat (readSingleCoord m cAddress))]"

text \<open>\<^verbatim>\<open>out[i]\<close>: \<^verbatim>\<open>undefined\<close> out of range.\<close>

definition js_index :: "jsval list \<Rightarrow> nat \<Rightarrow> jsval" where
  "js_index xs i = (if i < length xs then xs ! i else Undefined)"

function readGeoBoundary_loop ::
  "memory \<Rightarrow> (memory \<Rightarrow> nat \<Rightarrow> jsval) \<Rightarrow> nat \<Rightarrow> int \<Rightarrow> nat \<Rightarrow> jsval list \<Rightarrow> jsval list" where
  "readGeoBoundary_loop m readCoord vertsPos numVerts i out =
     (if int i < numVerts * 2 then
        readGeoBoundary_loop m readCoord vertsPos numVerts (i + 2)
          (out @ [readCoord m (vertsPos + SZ_DBL * i)])
      else out)"
  by pat_completeness auto
termination
  by (relation "measure (\<lambda>(m, readCoord, vertsPos, numVerts, i, out). nat (numVerts * 2) - i)")
    auto

declare readGeoBoundary_loop.simps [simp del]

definition readGeoBoundary :: "memory \<Rightarrow> nat \<Rightarrow> bool \<Rightarrow> bool \<Rightarrow> jsval list" where
  "readGeoBoundary m geoBoundary geoJsonCoords closedLoop =
     (let numVerts = getValue_i32 m geoBoundary;
          vertsPos = geoBoundary + SZ_DBL;
          readCoord = (if geoJsonCoords then readGeoCoordGeoJson else readGeoCoord);
          out = readGeoBoundary_loop m readCoord vertsPos numVerts 0 []
      in if closedLoop then out @ [js_index out 0] else out)"

text \<open>
  \<^verbatim>\<open>readMultiPolygon\<close> follows three nested chains of pointers until a null pointer. On a
  cyclic chain the source does not return; the model counts the nodes it may still visit
  and yields \<open>None\<close> when that bound is used up.
\<close>

fun readMultiPolygon_coords ::
  "nat \<Rightarrow> memory \<Rightarrow> (memory \<Rightarrow> nat \<Rightarrow> jsval) \<Rightarrow> nat \<Rightarrow> jsval list \<Rightarrow> jsval list option" where
  "readMultiPolygon_coords 0 m readCoord coord coords = None"
| "readMultiPolygon_coords (Suc fuel) m readCoord coord coords =
     (if coord \<noteq> 0 then
        readMultiPolygon_coords fuel m readCoord (getValue_ptr m (coord + SZ_DBL * 2))
          (coords @ [readCoord m coord])
      else Some coords)"

fun readMultiPolygon_loops ::
  "nat \<Rightarrow> memory \<Rightarrow> bool \<Rightarrow> nat \<Rightarrow> jsval list \<Rightarrow> jsval list option" where
  "readMultiPolygon_loops 0 m formatAsGeoJson loop loops = None"
| "readMultiPolygon_loops (Suc fuel) m formatAsGeoJson loop loops =
     (if loop \<noteq> 0 then
        (case readMultiPolygon_coords fuel m
                (if formatAsGeoJson then readGeoCoordGeoJson else readGeoCoord)
                (getValue_ptr m loop) [] of
           None \<Rightarrow> None
         | Some coords \<Rightarrow>
             readMultiPolygon_loops fuel m formatAsGeoJson (getValue_ptr m (loop + SZ_PTR * 2))
               (loops @ [Arr (if formatAsGeoJson then coords @ [js_index coords 0] else coords)]))
      else Some loops)"

fun readMultiPolygon_polygons ::
  "nat \<Rightarrow> memory \<Rightarrow> bool \<Rightarrow> nat \<Rightarrow> jsval list \<Rightarrow> jsval list option" where
  "readMultiPolygon_polygons 0 m formatAsGeoJson polygon output = None"
| "readMultiPolygon_polygons (Suc fuel) m formatAsGeoJson polygon output =
     (if polygon \<noteq> 0 then
        (case readMultiPolygon_loops fuel m formatAsGeoJson (getValue_ptr m polygon) [] of
           None \<Rightarrow> None
         | Some loops \<Rightarrow>
             readMultiPolygon_polygons fuel m formatAsGeoJson
               (getValue_ptr m (polygon + SZ_PTR * 2)) (output @ [Arr loops]))
      else Some output)"

definition readMultiPolygon :: "nat \<Rightarrow> memory \<Rightarrow> nat \<Rightarrow> bool \<Rightarrow> jsval list option" where
  "readMultiPolygon fuel m polygon formatAsGeoJson =
     readMultiPolygon_polygons fuel m formatAsGeoJson polygon []"


section \<open>Public API functions\<close>

text \<open>
  Each operation takes the engine and the runtime and returns its result with the
  runtime it leaves. An operation that can throw returns \<open>error + result\<close>.
\<close>

definition h3ToGeo :: "engine \<Rightarrow> jsval \<Rightarrow> runtime \<Rightarrow> jsval \<times> runtime" where
  "h3ToGeo eng h3Address w =
     (let (latlng, w1) = malloc (sizeOfGeoCoord eng) w;
          (lower, upper) = h3AddressToSplitLong h3Address;
          w2 = invoke ''h3ToGeo'' None (H3_h3ToGeo eng lower upper latlng (mem w1)) w1;
          out = readGeoCoord (mem w2) latlng
      in (out, free latlng w2))"

definition h3ToGeoBoundary :: "engine \<Rightarrow> jsval \<Rightarrow> bool \<Rightarrow> runtime \<Rightarrow> jsval list \<times> runtime" where
  "h3ToGeoBoundary eng h3Address formatAsGeoJson w =
     (let (geoBoundary, w1) = malloc (sizeOfGeoBoundary eng) w;
          (lower, upper) = h3AddressToSplitLong h3Address;
          w2 = invoke ''h3ToGeoBoundary'' None
                 (H3_h3ToGeoBoundary eng lower upper geoBoundary (mem w1)) w1;
          out = readGeoBoundary (mem w2) geoBoundary formatAsGeoJson formatAsGeoJson
      in (out, free geoBoundary w2))"

text \<open>
  \<^verbatim>\<open>getH3UnidirectionalEdgeBoundary\<close> calls \<^verbatim>\<open>readGeoBoundary(geoBoundary, formatAsGeoJson)\<close>:
  the third parameter, \<^verbatim>\<open>closedLoop\<close>, is absent, hence \<^verbatim>\<open>undefined\<close>, which is falsy.
\<close>

definition getH3UnidirectionalEdgeBoundary ::
  "engine \<Rightarrow> jsval \<Rightarrow> bool \<Rightarrow> runtime \<Rightarrow> jsval list \<times> runtime" where
  "getH3UnidirectionalEdgeBoundary eng edgeAddress formatAsGeoJson w =
     (let (geoBoundary, w1) = malloc (sizeOfGeoBoundary eng) w;
          (lower, upper) = h3AddressToSplitLong edgeAddress;
          w2 = invoke ''getH3UnidirectionalEdgeBoundary'' None
                 (H3_getH3UnidirectionalEdgeBoundary eng lower upper geoBoundary (mem w1)) w1;
          out = readGeoBoundary (mem w2) geoBoundary formatAsGeoJson False
      in (out, free geoBoundary w2))"

definition h3ToChildren :: "engine \<Rightarrow> jsval \<Rightarrow> jsval \<Rightarrow> runtime \<Rightarrow> string list \<times> runtime" where
  "h3ToChildren eng h3Address res w =
     (let (lower, upper) = h3AddressToSplitLong h3Address;
          maxCount = H3_maxH3ToChildrenSize eng lower upper res;
          w1 = invoke ''maxH3ToChildrenSize'' (Some maxCount) (mem w) w;
          (hexagons, w2) = calloc maxCount (sizeOfH3Index eng) w1;
          w3 = invoke ''h3ToChildren'' None
                 (H3_h3ToChildren eng lower upper res hexagons (mem w2)) w2;
          out = readArrayOfHexagons (mem w3) hexagons maxCount
      in (out, free hexagons w3))"

definition kRing :: "engine \<Rightarrow> jsval \<Rightarrow> nat \<Rightarrow> runtime \<Rightarrow> string list \<times> runtime" where
  "kRing eng h3Address ringSize w =
     (let (lower, upper) = h3AddressToSplitLong h3Address;
          maxCount = H3_maxKringSize eng ringSize;
          w1 = invoke ''maxKringSize'' (Some maxCount) (mem w) w;
          (hexagons, w2) = calloc maxCount (sizeOfH3Index eng) w1;
          w3 = invoke ''kRing'' None (H3_kRing eng lower upper ringSize hexagons (mem w2)) w2;
          out = readArrayOfHexagons (mem w3) hexagons maxCount
      in (out, free hexagons w3))"

text \<open>
  \<^verbatim>\<open>kRingDistances\<close> reads the buffer with a loop of its own: an entry other than
  \<open>(0, 0)\<close> is pushed onto \<^verbatim>\<open>out[index]\<close>, where \<^verbatim>\<open>index\<close> is the distance the engine
  stored for the entry. \<^verbatim>\<open>out\<close> starts as \<open>ringSize + 1\<close> empty arrays; when \<^verbatim>\<open>index\<close> is
  out of range, \<^verbatim>\<open>out[index]\<close> is \<^verbatim>\<open>undefined\<close> and the push raises, before the frees.
\<close>

function kRingDistances_loop ::
  "memory \<Rightarrow> nat \<Rightarrow> nat \<Rightarrow> int \<Rightarrow> nat \<Rightarrow> string list list \<Rightarrow> error + string list list" where
  "kRingDistances_loop m kRings distances maxCount i out =
     (if int i < maxCount * 2 then
        let hexLower = getValue_i32 m (kRings + SZ_INT * i);
            hexUpper = getValue_i32 m (kRings + SZ_INT * (i + 1));
            index = getValue_i32 m (distances + SZ_INT * (i div 2))
        in if hexLower \<noteq> 0 \<or> hexUpper \<noteq> 0 then
             (if 0 \<le> index \<and> index < int (length out) then
                kRingDistances_loop m kRings distances maxCount (i + 2)
                  (out[nat index :=
                         out ! nat index @ [splitLongToH3Address (IntV hexLower) (IntV hexUpper)]])
              else Inl TypeError)
           else kRingDistances_loop m kRings distances maxCount (i + 2) out
      else Inr out)"
  by pat_completeness auto
termination
  by (relation "measure (\<lambda>(m, kRings, distances, maxCount, i, out). nat (maxCount * 2) - i)")
    auto

declare kRingDistances_loop.simps [simp del]

definition kRingDistances ::
  "engine \<Rightarrow> jsval \<Rightarrow> nat \<Rightarrow> runtime \<Rightarrow> (error + string list list) \<times> runtime" where
  "kRingDistances eng h3Address ringSize w =
     (let (lower, upper) = h3AddressToSplitLong h3Address;
          maxCount = H3_maxKringSize eng ringSize;
          w1 = invoke ''maxKringSize'' (Some maxCount) (mem w) w;
          (kRings, w2) = calloc maxCount (sizeOfH3Index eng) w1;
          (distances, w3) = calloc maxCount SZ_INT w2;
          w4 = invoke ''kRingDistances'' None
                 (H3_kRingDistances eng lower upper ringSize kRings distances (mem w3)) w3
      in case kRingDistances_loop (mem w4) kRings distances maxCount 0
                (replicate (ringSize + 1) []) of
           Inl e \<Rightarrow> (Inl e, w4)
         | Inr out \<Rightarrow> (Inr out, free distances (free kRings w4)))"

definition hexRing ::
  "engine \<Rightarrow> jsval \<Rightarrow> nat \<Rightarrow> runtime \<Rightarrow> (error + string list) \<times> runtime" where
  "hexRing eng h3Address ringSize w =
     (let maxCount = int (if ringSize = 0 then 1 else 6 * ringSize);
          (hexagons, w1) = calloc maxCount (sizeOfH3Index eng) w;
          (lower, upper) = h3AddressToSplitLong h3Address;
          (retVal, m2) = H3_hexRing eng lower upper ringSize hexagons (mem w1);
          w2 = invoke ''hexRing'' (Some retVal) m2 w1
      in if retVal \<noteq> 0 then
           (Inl (Failure ''Failed to get hexRing (encountered a pentagon?)''), free hexagons w2)
         else
           let out = readArrayOfHexagons (mem w2) hexagons maxCount
           in (Inr out, free hexagons w2))"

text \<open>
  The argument of \<^verbatim>\<open>polyfill\<close> is an array of loops or a single loop; the source tells them
  apart by \<^verbatim>\<open>typeof coordinates[0][0] === 'number'\<close>.
\<close>

datatype coordinates = Loops "coord_pair list list" | SingleLoop "coord_pair list"

text \<open>\<^verbatim>\<open>coordinates.length === 0 || coordinates[0].length === 0\<close>; a pair has length 2.\<close>

fun polyfill_empty :: "coordinates \<Rightarrow> bool" where
  "polyfill_empty (Loops ls) = (length ls = 0 \<or> length (ls ! 0) = 0)"
| "polyfill_empty (SingleLoop l) = (length l = 0)"

fun polyfill_wrap :: "coordinates \<Rightarrow> coord_pair list list" where
  "polyfill_wrap (Loops ls) = ls"
| "polyfill_wrap (SingleLoop l) = [l]"

definition polyfill ::
  "engine \<Rightarrow> coordinates \<Rightarrow> jsval \<Rightarrow> bool \<Rightarrow> runtime \<Rightarrow> (error + string list) \<times> runtime" where
  "polyfill eng coordinates res isGeoJson w =
     (case validateRes res of
        Some e \<Rightarrow> (Inl e, w)
      | None \<Rightarrow>
          if polyfill_empty coordinates then (Inr [], w)
          else
            (case coordinatesToGeoPolygon eng (polyfill_wrap coordinates) isGeoJson w of
               (Inl e, w1) \<Rightarrow> (Inl e, w1)
             | (Inr geoPolygon, w1) \<Rightarrow>
                 let arrayLen = H3_maxPolyfillSize eng geoPolygon res (mem w1);
                     w2 = invoke ''maxPolyfillSize'' (Some arrayLen) (mem w1) w1;
                     (hexagons, w3) = calloc arrayLen (sizeOfH3Index eng) w2;
                     w4 = invoke ''polyfill'' None
                            (H3_polyfill eng geoPolygon res hexagons (mem w3)) w3;
                     out = readArrayOfHexagons (mem w4) hexagons arrayLen;
                     w5 = free hexagons w4;
                     w6 = destroyGeoPolygon eng geoPolygon w5
                 in (Inr out, w6)))"

definition compact :: "engine \<Rightarrow> jsval list \<Rightarrow> runtime \<Rightarrow> (error + string list) \<times> runtime" where
  "compact eng h3Set w =
     (if length h3Set = 0 then (Inr [], w)
      else
        let count = length h3Set;
            (set, w1) = calloc (int count) (sizeOfH3Index eng) w;
            w2 = w1\<lparr>mem := storeArrayOfHexagons set h3Set (mem w1)\<rparr>;
            (compactedSet, w3) = calloc (int count) (sizeOfH3Index eng) w2;
            (retVal, m4) = H3_compact eng set compactedSet count (mem w3);
            w4 = invoke ''compact'' (Some retVal) m4 w3
        in if retVal \<noteq> 0 then
             (Inl (Failure ''Failed to compact, malformed input data (duplicate hexagons?)''),
              free compactedSet (free set w4))
           else
             let out = readArrayOfHexagons (mem w4) compactedSet (int count)
             in (Inr out, free compactedSet (free set w4)))"

definition uncompact ::
  "engine \<Rightarrow> jsval list \<Rightarrow> jsval \<Rightarrow> runtime \<Rightarrow> (error + string list) \<times> runtime" where
  "uncompact eng compactedSet res w =
     (case validateRes res of
        Some e \<Rightarrow> (Inl e, w)
      | None \<Rightarrow>
          if length compactedSet = 0 then (Inr [], w)
          else
            let count = length compactedSet;
                (set, w1) = calloc (int count) (sizeOfH3Index eng) w;
                w2 = w1\<lparr>mem := storeArrayOfHexagons set compactedSet (mem w1)\<rparr>;
                maxUncompactedNum = H3_maxUncompactSize eng set count res (mem w2);
                w3 = invoke ''maxUncompactSize'' (Some maxUncompactedNum) (mem w2) w2;
                (uncompactedSet, w4) = calloc maxUncompactedNum (sizeOfH3Index eng) w3;
                (retVal, m5) =
                  H3_uncompact eng set count uncompactedSet maxUncompactedNum res (mem w4);
                w5 = invoke ''uncompact'' (Some retVal) m5 w4
            in if retVal \<noteq> 0 then
                 (Inl (Failure ''Failed to uncompact (bad resolution?)''),
                  free uncompactedSet (free set w5))
               else
                 let out = readArrayOfHexagons (mem w5) uncompactedSet maxUncompactedNum
                 in (Inr out, free uncompactedSet (free set w5)))"

definition getH3IndexesFromUnidirectionalEdge ::
  "engine \<Rightarrow> jsval \<Rightarrow> runtime \<Rightarrow> string list \<times> runtime" where
  "getH3IndexesFromUnidirectionalEdge eng edgeAddress w =
     (let (lower, upper) = h3AddressToSplitLong edgeAddress;
          count = 2;
          (hexagons, w1) = calloc count (sizeOfH3Index eng) w;
          w2 = invoke ''getH3IndexesFromUnidirectionalEdge'' None
                 (H3_getH3IndexesFromUnidirectionalEdge eng lower upper hexagons (mem w1)) w1;
          out = readArrayOfHexagons (mem w2) hexagons count
      in (out, free hexagons w2))"

definition getH3UnidirectionalEdgesFromHexagon ::
  "engine \<Rightarrow> jsval \<Rightarrow> runtime \<Rightarrow> string list \<times> runtime" where
  "getH3UnidirectionalEdgesFromHexagon eng h3Address w =
     (let (lower, upper) = h3AddressToSplitLong h3Address;
          count = 6;
          (edges, w1) = calloc count (sizeOfH3Index eng) w;
          w2 = invoke ''getH3UnidirectionalEdgesFromHexagon'' None
                 (H3_getH3UnidirectionalEdgesFromHexagon eng lower upper edges (mem w1)) w1;
          out = readArrayOfHexagons (mem w2) edges count
      in (out, free edges w2))"

subsection \<open>Informational utilities\<close>

definition UNITS_m :: jsval where "UNITS_m = Str ''m''"
definition UNITS_km :: jsval where "UNITS_km = Str ''km''"
definition UNITS_m2 :: jsval where "UNITS_m2 = Str ''m2''"
definition UNITS_km2 :: jsval where "UNITS_km2 = Str ''km2''"

definition hexArea :: "engine \<Rightarrow> jsval \<Rightarrow> jsval \<Rightarrow> runtime \<Rightarrow> (error + real) \<times> runtime" where
  "hexArea eng res unit w =
     (case validateRes res of
        Some e \<Rightarrow> (Inl e, w)
      | None \<Rightarrow>
          if unit = UNITS_m2 then
            (Inr (H3_hexAreaM2 eng res), invoke ''hexAreaM2'' None (mem w) w)
          else if unit = UNITS_km2 then
            (Inr (H3_hexAreaKm2 eng res), invoke ''hexAreaKm2'' None (mem w) w)
          else (Inl (UnknownUnit unit), w))"

definition edgeLength :: "engine \<Rightarrow> jsval \<Rightarrow> jsval \<Rightarrow> runtime \<Rightarrow> (error + real) \<times> runtime" where
  "edgeLength eng res unit w =
     (case validateRes res of
        Some e \<Rightarrow> (Inl e, w)
      | None \<Rightarrow>
          if unit = UNITS_m then
            (Inr (H3_edgeLengthM eng res), invoke ''edgeLengthM'' None (mem w) w)
          else if unit = UNITS_km then
            (Inr (H3_edgeLengthKm eng res), invoke ''edgeLengthKm'' None (mem w) w)
          else (Inl (UnknownUnit unit), w))"


section \<open>Vocabulary of the properties\<close>

text \<open>
  An identifier string as the engine prints it: a 64-bit value with a non-zero upper
  word, in lowercase hexadecimal without a leading zero. That is 9 to 16 digits; a cell
  has 15 and a directed edge 16.
\<close>

definition lower_hex :: "char \<Rightarrow> bool" where
  "lower_hex c = (c \<in> set ''0123456789abcdef'')"

definition canonical_id :: "string \<Rightarrow> bool" where
  "canonical_id s =
     (9 \<le> length s \<and> length s \<le> 16 \<and> list_all lower_hex s \<and> hd s \<noteq> CHR ''0'')"

text \<open>The \<open>k\<close>-th entry of an identifier buffer: its lower and upper word.\<close>

definition buffer_entry :: "memory \<Rightarrow> nat \<Rightarrow> nat \<Rightarrow> int \<times> int" where
  "buffer_entry m cAddress k =
     (getValue_i32 m (cAddress + 8 * k), getValue_i32 m (cAddress + 8 * k + 4))"

definition entry_to_string :: "int \<times> int \<Rightarrow> string" where
  "entry_to_string e = splitLongToH3Address (IntV (fst e)) (IntV (snd e))"

text \<open>
  The identifiers of a buffer of capacity \<open>maxCount\<close>: the strings of the entries other
  than \<open>(0, 0)\<close>, in buffer order. \<open>ring_ids\<close> keeps those stored with distance \<open>r\<close>.
\<close>

definition buffer_ids :: "memory \<Rightarrow> nat \<Rightarrow> int \<Rightarrow> string list" where
  "buffer_ids m cAddress maxCount =
     map entry_to_string
       (filter (\<lambda>e. e \<noteq> (0, 0)) (map (buffer_entry m cAddress) [0..<nat maxCount]))"

definition entry_distance :: "memory \<Rightarrow> nat \<Rightarrow> nat \<Rightarrow> int" where
  "entry_distance m distances k = getValue_i32 m (distances + 4 * k)"

definition ring_ids :: "memory \<Rightarrow> nat \<Rightarrow> nat \<Rightarrow> int \<Rightarrow> nat \<Rightarrow> string list" where
  "ring_ids m kRings distances maxCount r =
     map (\<lambda>k. entry_to_string (buffer_entry m kRings k))
       (filter (\<lambda>k. buffer_entry m kRings k \<noteq> (0, 0) \<and> entry_distance m distances k = int r)
          [0..<nat maxCount])"

text \<open>The same selection over the entries from \<open>k\<close> on, for the loop that fills the rings.\<close>

definition ids_from :: "memory \<Rightarrow> nat \<Rightarrow> nat \<Rightarrow> int \<Rightarrow> nat \<Rightarrow> nat \<Rightarrow> string list" where
  "ids_from m a d n k r =
     map (\<lambda>j. entry_to_string (buffer_entry m a j))
       (filter (\<lambda>j. buffer_entry m a j \<noteq> (0, 0) \<and> entry_distance m d j = int r) [k..<nat n])"

text \<open>
  What a call did to the runtime: the blocks it was handed, the engine entry points it
  invoked, and whether the addresses it freed are exactly the blocks it was handed, each
  once.
\<close>

definition new_blocks :: "runtime \<Rightarrow> runtime \<Rightarrow> nat list" where
  "new_blocks w w' = drop (length (allocated w)) (allocated w')"

definition new_calls :: "runtime \<Rightarrow> runtime \<Rightarrow> (string \<times> int option) list" where
  "new_calls w w' = drop (length (calls w)) (calls w')"

definition all_released :: "runtime \<Rightarrow> runtime \<Rightarrow> bool" where
  "all_released w w' =
     (allocated w' = allocated w @ new_blocks w w' \<and> freed w' = freed w @ new_blocks w w')"

text \<open>The vertices of a boundary record: \<open>numVerts\<close> coordinate pairs from offset 8 on.\<close>

definition boundary_verts :: "memory \<Rightarrow> nat \<Rightarrow> bool \<Rightarrow> jsval list" where
  "boundary_verts m geoBoundary geoJsonCoords =
     map (\<lambda>k. (if geoJsonCoords then readGeoCoordGeoJson else readGeoCoord) m
                (geoBoundary + 8 + 16 * k))
         [0..<nat (getValue_i32 m geoBoundary)]"

text \<open>A loop with its closing point: the first element once more at the end.\<close>

definition closed_loop :: "jsval list \<Rightarrow> jsval list" where
  "closed_loop vs = vs @ [js_index vs 0]"

text \<open>
  A null-terminated chain of nodes in the heap: \<open>linked m off p nodes\<close> holds when
  following the pointer at offset \<open>off\<close> from \<open>p\<close> visits exactly \<open>nodes\<close>.
\<close>

primrec linked :: "memory \<Rightarrow> nat \<Rightarrow> nat \<Rightarrow> nat list \<Rightarrow> bool" where
  "linked m off p [] = (p = 0)"
| "linked m off p (a # as) = (p \<noteq> 0 \<and> p = a \<and> linked m off (getValue_ptr m (a + off)) as)"

text \<open>
  A test double for the engine and an empty runtime, for concrete runs. The double
  reports the struct sizes of the 32-bit build, fails every operation that has a failure
  status, writes a two-vertex boundary \<open>(0, 0), (45, 90)\<close> in degrees, and fills an
  identifier buffer with the entries \<open>(1, 2)\<close>, \<open>(0, 0)\<close>, \<open>(3, 4)\<close>, at the distances
  0, 0 and 1. The double \<open>test_engine_ok\<close> is the same engine with the three failing
  operations succeeding and filling their output buffer in that way.
\<close>

definition test_boundary :: "nat \<Rightarrow> memory \<Rightarrow> memory" where
  "test_boundary p m =
     HEAPF64_set [0, 0, pi / 4, pi / 2] (p div 8 + 1) (setValue_i32 p 2 m)"

definition test_ring :: "nat \<Rightarrow> memory \<Rightarrow> memory" where
  "test_ring p m = HEAPU32_set [1, 2, 0, 0, 3, 4] (p div 4) m"

definition test_rings :: "nat \<Rightarrow> nat \<Rightarrow> memory \<Rightarrow> memory" where
  "test_rings p d m = HEAPU32_set [0, 0, 1] (d div 4) (test_ring p m)"

definition test_engine :: engine where
  "test_engine =
     \<lparr>sizeOfH3Index = 8, sizeOfGeoCoord = 16, sizeOfGeoBoundary = 168,
      sizeOfGeoPolygon = 16, sizeOfGeofence = 8,
      H3_h3ToGeo = (\<lambda>lower upper p m. m),
      H3_h3ToGeoBoundary = (\<lambda>lower upper p m. test_boundary p m),
      H3_getH3UnidirectionalEdgeBoundary = (\<lambda>lower upper p m. test_boundary p m),
      H3_maxH3ToChildrenSize = (\<lambda>lower upper res. 7),
      H3_h3ToChildren = (\<lambda>lower upper res p m. test_ring p m),
      H3_maxKringSize = (\<lambda>k. 3 * int k * (int k + 1) + 1),
      H3_kRingDistances = (\<lambda>lower upper k p d m. test_rings p d m),
      H3_kRing = (\<lambda>lower upper k p m. test_ring p m),
      H3_hexRing = (\<lambda>lower upper k p m. (1, m)),
      H3_maxPolyfillSize = (\<lambda>p res m. 0),
      H3_polyfill = (\<lambda>p res out m. m),
      H3_compact = (\<lambda>p out n m. (1, m)),
      H3_maxUncompactSize = (\<lambda>p n res m. int n),
      H3_uncompact = (\<lambda>p n out k res m. (1, m)),
      H3_getH3IndexesFromUnidirectionalEdge = (\<lambda>lower upper p m. test_ring p m),
      H3_getH3UnidirectionalEdgesFromHexagon = (\<lambda>lower upper p m. test_ring p m),
      H3_hexAreaM2 = (\<lambda>res. 0), H3_hexAreaKm2 = (\<lambda>res. 0),
      H3_edgeLengthM = (\<lambda>res. 0), H3_edgeLengthKm = (\<lambda>res. 0)\<rparr>"

definition test_engine_ok :: engine where
  "test_engine_ok =
     test_engine
       \<lparr>H3_hexRing := (\<lambda>lower upper k p m. (0, test_ring p m)),
        H3_polyfill := (\<lambda>p res out m. test_ring out m),
        H3_maxPolyfillSize := (\<lambda>p res m. 3),
        H3_compact := (\<lambda>p out n m. (0, test_ring out m)),
        H3_maxUncompactSize := (\<lambda>p n res m. 3),
        H3_uncompact := (\<lambda>p n out k res m. (0, test_ring out m))\<rparr>"

definition test_memory :: memory where
  "test_memory = \<lparr>HEAP32 = (\<lambda>i. 0), HEAPF64 = (\<lambda>i. 0)\<rparr>"

definition test_runtime :: runtime where
  "test_runtime =
     \<lparr>mem = test_memory, fresh = (\<lambda>k. 1024 * (k + 1)),
      allocated = [], freed = [], calls = []\<rparr>"

text \<open>The coordinate reader a read path selects for its coordinate order.\<close>

definition read_coord :: "bool \<Rightarrow> memory \<Rightarrow> nat \<Rightarrow> jsval" where
  "read_coord geoJson = (if geoJson then readGeoCoordGeoJson else readGeoCoord)"

text \<open>
  The linked output of the engine, described by the addresses of its nodes: a polygon
  node with its loops, a loop node with its coordinate nodes. The first-child pointer is
  at offset 0 of a node; the next pointer is at offset 8 of a polygon or loop node and at
  offset 16 of a coordinate node.
\<close>

fun linked_loops :: "memory \<Rightarrow> nat \<Rightarrow> (nat \<times> nat list) list \<Rightarrow> bool" where
  "linked_loops m p [] = (p = 0)"
| "linked_loops m p ((a, coords) # rest) =
     (p \<noteq> 0 \<and> p = a \<and> linked m 16 (getValue_ptr m a) coords \<and>
      linked_loops m (getValue_ptr m (a + 8)) rest)"

fun linked_polygons :: "memory \<Rightarrow> nat \<Rightarrow> (nat \<times> (nat \<times> nat list) list) list \<Rightarrow> bool" where
  "linked_polygons m p [] = (p = 0)"
| "linked_polygons m p ((a, loops) # rest) =
     (p \<noteq> 0 \<and> p = a \<and> linked_loops m (getValue_ptr m a) loops \<and>
      linked_polygons m (getValue_ptr m (a + 8)) rest)"

text \<open>
  The host value of such a structure: each loop is the list of its points, with the
  closing point in GeoJSON mode only.
\<close>

definition render_loop :: "memory \<Rightarrow> bool \<Rightarrow> nat list \<Rightarrow> jsval" where
  "render_loop m geoJson coords =
     (let points = map (read_coord geoJson m) coords
      in Arr (if geoJson then closed_loop points else points))"

definition render_polygon :: "memory \<Rightarrow> bool \<Rightarrow> (nat \<times> nat list) list \<Rightarrow> jsval" where
  "render_polygon m geoJson loops = Arr (map (\<lambda>l. render_loop m geoJson (snd l)) loops)"

definition render_multi ::
  "memory \<Rightarrow> bool \<Rightarrow> (nat \<times> (nat \<times> nat list) list) list \<Rightarrow> jsval list" where
  "render_multi m geoJson polygons = map (\<lambda>p. render_polygon m geoJson (snd p)) polygons"

text \<open>The number of node visits that reading such a structure takes at most.\<close>

fun nodes_loops :: "(nat \<times> nat list) list \<Rightarrow> nat" where
  "nodes_loops [] = 1"
| "nodes_loops ((a, coords) # rest) = 1 + max (length coords + 1) (nodes_loops rest)"

fun nodes_polygons :: "(nat \<times> (nat \<times> nat list) list) list \<Rightarrow> nat" where
  "nodes_polygons [] = 1"
| "nodes_polygons ((a, loops) # rest) = 1 + max (nodes_loops loops) (nodes_polygons rest)"

text \<open>
  The engine's ranges, in radians, for the coordinate pair stored at an address, and the
  canonical ranges, in degrees, of a point in the host's form.
\<close>

definition in_engine_range :: "memory \<Rightarrow> nat \<Rightarrow> bool" where
  "in_engine_range m cAddress =
     (0 \<le> getValue_double m cAddress \<and> getValue_double m cAddress \<le> pi \<and>
      0 \<le> getValue_double m (cAddress + 8) \<and> getValue_double m (cAddress + 8) \<le> 2 * pi)"

definition canonical :: "real \<Rightarrow> real \<Rightarrow> bool" where
  "canonical lat lng = (- 90 < lat \<and> lat \<le> 90 \<and> - 180 < lng \<and> lng \<le> 180)"

fun canonical_point :: "bool \<Rightarrow> jsval \<Rightarrow> bool" where
  "canonical_point geoJson (Arr [Number a, Number b]) =
     (if geoJson then canonical b a else canonical a b)"
| "canonical_point geoJson v = False"

text \<open>
  The points of a multi-polygon value all canonical; and a linked structure whose loops
  are non-empty and whose coordinates all lie in the engine's ranges.
\<close>

fun elements :: "jsval \<Rightarrow> jsval list" where
  "elements (Arr vs) = vs"
| "elements v = []"

definition multi_canonical :: "bool \<Rightarrow> jsval list \<Rightarrow> bool" where
  "multi_canonical geoJson output =
     list_all (\<lambda>polygon. list_all (\<lambda>loop. list_all (canonical_point geoJson) (elements loop))
                 (elements polygon)) output"

definition coords_in_range :: "memory \<Rightarrow> (nat \<times> (nat \<times> nat list) list) list \<Rightarrow> bool" where
  "coords_in_range m polygons =
     list_all (\<lambda>polygon. list_all (\<lambda>loop. snd loop \<noteq> [] \<and> list_all (in_engine_range m) (snd loop))
                 (snd polygon)) polygons"

text \<open>
  Sample heaps: a linked structure of one polygon with one loop of two coordinates, and
  a boundary record (at 152) of one vertex \<open>(135, 270)\<close> in degrees.
\<close>

definition sample_linked :: memory where
  "sample_linked =
     \<lparr>HEAP32 = (\<lambda>i. 0)(16 := 96, 24 := 128, 36 := 160),
      HEAPF64 = (\<lambda>i. 0)(20 := pi / 4, 21 := pi / 2)\<rparr>"

definition sample_coord :: memory where
  "sample_coord =
     \<lparr>HEAP32 = (\<lambda>i. 0)(38 := 1),
      HEAPF64 = (\<lambda>i. 0)(20 := 3 * pi / 4, 21 := 3 * pi / 2)\<rparr>"

text \<open>An identifier buffer of three entries whose middle entry is the empty slot.\<close>

definition sample_buffer :: memory where
  "sample_buffer =
     test_memory\<lparr>HEAP32 := (HEAP32 test_memory)(250 := 1, 251 := 2, 254 := 3, 255 := 4)\<rparr>"

section \<open>The identifier codec\<close>

lemma lower_hex_facts:
  "lower_hex c \<Longrightarrow>
     digit_value c \<noteq> None \<and> digit_char (the (digit_value c)) = c \<and> the (digit_value c) < 16 \<and>
     (c = CHR ''0'' \<longleftrightarrow> the (digit_value c) = 0) \<and>
     \<not> is_space c \<and> c \<noteq> CHR ''-'' \<and> c \<noteq> CHR ''+'' \<and> c \<noteq> CHR ''x'' \<and> c \<noteq> CHR ''X''"
  unfolding lower_hex_def
  by (auto simp: digit_value_def digit_char_def is_space_def)

lemma zeroPad_loop_eq: "zeroPad_loop k out = out @ replicate k (CHR ''0'')"
  by (induction k arbitrary: out) (simp_all add: replicate_app_Cons_same)

lemma zeroPad_eq: "zeroPad n s = replicate (n - length s) (CHR ''0'') @ s"
  by (simp add: zeroPad_def zeroPad_loop_eq)

lemma digits_value_snoc:
  "digits_value (ds @ [c]) = digits_value ds * 16 + the (digit_value c)"
  by (simp add: digits_value_def BASE_16_def)

lemma digits_value_zero_Cons: "digits_value (CHR ''0'' # ds) = digits_value ds"
  by (simp add: digits_value_def BASE_16_def digit_value_def)

text \<open>Printing the value of a digit string without a leading zero gives the string back.\<close>

lemma hex_digits_canonical:
  "ds \<noteq> [] \<Longrightarrow> list_all lower_hex ds \<Longrightarrow> hd ds \<noteq> CHR ''0'' \<Longrightarrow>
     hex_digits (digits_value ds) = ds"
proof (induction ds rule: rev_induct)
  case Nil
  then show ?case by simp
next
  case (snoc c xs)
  have c: "lower_hex c" using snoc.prems by simp
  show ?case
  proof (cases "xs = []")
    case True
    then show ?thesis using lower_hex_facts[OF c]
      by (simp add: digits_value_def BASE_16_def hex_digits.simps)
  next
    case False
    then have ih: "hex_digits (digits_value xs) = xs" using snoc by simp
    have "digits_value xs \<noteq> 0"
    proof
      assume "digits_value xs = 0"
      then have "xs = [digit_char 0]" using ih by (simp add: hex_digits.simps)
      then show False using snoc.prems False by (simp add: digit_char_def)
    qed
    then have big: "\<not> digits_value xs * 16 + the (digit_value c) < 16" by simp
    have d: "the (digit_value c) < 16" using lower_hex_facts[OF c] by simp
    show ?thesis
      using lower_hex_facts[OF c] ih d big
      by (subst hex_digits.simps) (simp add: digits_value_snoc)
  qed
qed

text \<open>With leading zeros, padding to the original length restores them.\<close>

lemma hex_digits_padded:
  "ds \<noteq> [] \<Longrightarrow> list_all lower_hex ds \<Longrightarrow>
     zeroPad (length ds) (hex_digits (digits_value ds)) = ds"
proof (induction ds)
  case Nil
  then show ?case by simp
next
  case (Cons c rest)
  show ?case
  proof (cases "c = CHR ''0''")
    case False
    then have "hex_digits (digits_value (c # rest)) = c # rest"
      using Cons.prems by (intro hex_digits_canonical) simp_all
    then show ?thesis by (simp add: zeroPad_eq)
  next
    case zero: True
    show ?thesis
    proof (cases "rest = []")
      case True
      then show ?thesis using zero
        by (simp add: zeroPad_eq digits_value_def digit_value_def hex_digits.simps digit_char_def)
    next
      case False
      then have ih: "zeroPad (length rest) (hex_digits (digits_value rest)) = rest"
        using Cons by simp
      let ?h = "hex_digits (digits_value rest)"
      from ih have eq: "replicate (length rest - length ?h) (CHR ''0'') @ ?h = rest"
        by (simp add: zeroPad_eq)
      then have "length (replicate (length rest - length ?h) (CHR ''0'') @ ?h) = length rest"
        by simp
      then have le: "length ?h \<le> length rest" by simp
      then have "Suc (length rest) - length ?h = Suc (length rest - length ?h)" by simp
      then show ?thesis using zero eq
        by (simp add: zeroPad_eq digits_value_zero_Cons)
    qed
  qed
qed

lemma parseInt16_lower_hex:
  assumes "ds \<noteq> []" "list_all lower_hex ds"
  shows "parseInt16 ds = IntV (int (digits_value ds))"
proof -
  obtain c rest where ds: "ds = c # rest" using assms(1) by (cases ds) auto
  have c: "lower_hex c" using assms(2) ds by simp
  have all: "\<forall>x\<in>set ds. is_digit16 x"
    using assms(2) lower_hex_facts by (auto simp: list_all_iff is_digit16_def)
  have strip: "strip_0x (c # rest) = c # rest"
  proof (cases rest)
    case Nil
    then show ?thesis by simp
  next
    case (Cons b rest')
    then have "lower_hex b" using assms(2) ds by simp
    then show ?thesis using Cons lower_hex_facts by auto
  qed
  have tw: "takeWhile is_digit16 ds = ds" using all by (simp add: takeWhile_eq_all_conv)
  show ?thesis
    using lower_hex_facts[OF c] strip tw ds
    by (simp add: parseInt16_def)
qed

lemma parseInt16_single:
  "parseInt16 [c] = (case digit_value c of Some d \<Rightarrow> IntV (int d) | None \<Rightarrow> NaN)"
proof (cases "is_space c")
  case True
  then have "digit_value c = None" by (auto simp: is_space_def digit_value_def)
  then show ?thesis using True by (simp add: parseInt16_def)
next
  case False
  show ?thesis
  proof (cases "c = CHR ''-'' \<or> c = CHR ''+''")
    case True
    then have "digit_value c = None" by (auto simp: digit_value_def)
    then show ?thesis using True False by (auto simp: parseInt16_def)
  next
    case nosign: False
    then show ?thesis using False
      by (auto simp: parseInt16_def is_digit16_def digits_value_def BASE_16_def split: option.splits)
  qed
qed

lemma parseInt16_Nil: "parseInt16 [] = NaN"
  by (simp add: parseInt16_def)

text \<open>
  C2. For every identifier string \<open>s\<close> in the engine's form (lowercase hexadecimal, no
  leading zero, 9 to 16 digits, which covers the 15 digits of a cell and the 16 of an
  edge), splitting it into the pair of words with \<open>h3AddressToSplitLong\<close> and
  assembling the pair with \<open>splitLongToH3Address\<close> gives \<open>s\<close> again.
\<close>

theorem splitLong_roundtrip:
  assumes "canonical_id s"
  shows "(let (lower, upper) = h3AddressToSplitLong (Str s)
          in splitLongToH3Address lower upper) = s"
proof -
  let ?n = "length s"
  let ?u = "take (?n - 8) s" and ?l = "drop (?n - 8) s"
  have len: "9 \<le> ?n" and all: "list_all lower_hex s" and hd0: "hd s \<noteq> CHR ''0''"
    using assms by (simp_all add: canonical_id_def)
  have sub_u: "substring s 0 (int ?n - 8) = ?u"
    using len by (simp add: substring_def clamp_index_def nat_diff_distrib')
  have sub_l: "substring_from s (int ?n - 8) = ?l"
    using len by (simp add: substring_from_def clamp_index_def nat_diff_distrib')
  have u_ne: "?u \<noteq> []" using len by auto
  have l_len: "length ?l = 8" using len by simp
  then have l_ne: "?l \<noteq> []" by auto
  have u_all: "list_all lower_hex ?u" and l_all: "list_all lower_hex ?l"
    using all by (auto simp: list_all_iff dest: in_set_takeD in_set_dropD)
  have u_hd: "hd ?u \<noteq> CHR ''0''" using hd0 u_ne by (simp add: hd_take)
  have pu: "parseInt16 ?u = IntV (int (digits_value ?u))"
    by (rule parseInt16_lower_hex[OF u_ne u_all])
  have pl: "parseInt16 ?l = IntV (int (digits_value ?l))"
    by (rule parseInt16_lower_hex[OF l_ne l_all])
  have hu: "hexFrom32Bit (IntV (int (digits_value ?u))) = ?u"
    using hex_digits_canonical[OF u_ne u_all u_hd] by (simp add: hexFrom32Bit_def)
  have hl: "zeroPad 8 (hexFrom32Bit (IntV (int (digits_value ?l)))) = ?l"
    using hex_digits_padded[OF l_ne l_all] l_len by (simp add: hexFrom32Bit_def)
  show ?thesis
    using sub_u sub_l pu pl hu hl
    by (simp add: splitLongToH3Address_def)
qed

theorem splitLong_roundtrip_witness:
  "canonical_id ''8928308280fffff'' \<and>
   (let (lower, upper) = h3AddressToSplitLong (Str ''8928308280fffff'')
    in splitLongToH3Address lower upper) = ''8928308280fffff''"
proof -
  have c: "canonical_id ''8928308280fffff''"
    by (simp add: canonical_id_def lower_hex_def)
  show ?thesis using c splitLong_roundtrip [OF c] by simp
qed

text \<open>
  C9. For every input that is not a string, \<open>h3AddressToSplitLong\<close> returns the pair
  \<open>(0, 0)\<close>; it raises no error.
\<close>

theorem h3AddressToSplitLong_non_string:
  "\<not> is_string v \<Longrightarrow> h3AddressToSplitLong v = (IntV 0, IntV 0)"
  by (cases v) simp_all

theorem h3AddressToSplitLong_non_string_witness:
  "\<not> is_string (Arr [Number 1, Null]) \<and>
   h3AddressToSplitLong (Arr [Number 1, Null]) = (IntV 0, IntV 0)"
  using h3AddressToSplitLong_non_string [of "Arr [Number 1, Null]"] by simp

text \<open>
  C10. \<open>h3GetResolution\<close> is a function of its argument alone (it takes neither the engine
  nor the runtime). For an argument that is not a string it returns \<open>-1\<close>. For a string
  it returns the value of the second character read as one hexadecimal digit, and NaN
  when that character is no such digit or the string has no second character.
\<close>

theorem h3GetResolution_second_char:
  "(\<not> is_string v \<longrightarrow> h3GetResolution v = IntV (- 1)) \<and>
   h3GetResolution (Str s) =
     (if 1 < length s then (case digit_value (s ! 1) of Some d \<Rightarrow> IntV (int d) | None \<Rightarrow> NaN)
      else NaN)"
  by (cases v) (simp_all add: charAt_def parseInt16_single parseInt16_Nil)

theorem h3GetResolution_second_char_witness:
  "\<not> is_string Undefined \<and> h3GetResolution Undefined = IntV (- 1) \<and>
   h3GetResolution (Str ''8g'') = NaN \<and> h3GetResolution (Str ''89283'') = IntV 9"
  using h3GetResolution_second_char [of Undefined "''8g''"]
    h3GetResolution_second_char [of Undefined "''89283''"]
  by (simp add: digit_value_def)


section \<open>Basic facts: allocation, release, engine calls, test data\<close>

lemma calloc_effect:
  "calloc n b w = (p, w1) \<Longrightarrow>
     allocated w1 = allocated w @ [p] \<and> freed w1 = freed w \<and> calls w1 = calls w"
  by (auto simp: calloc_def malloc_def Let_def split: if_splits)

lemma malloc_effect:
  "malloc b w = (p, w1) \<Longrightarrow>
     allocated w1 = allocated w @ [p] \<and> freed w1 = freed w \<and> calls w1 = calls w \<and>
     mem w1 = mem w"
  by (auto simp: malloc_def Let_def)

lemma invoke_effect [simp]:
  "allocated (invoke name st m w) = allocated w"
  "freed (invoke name st m w) = freed w"
  "calls (invoke name st m w) = calls w @ [(name, st)]"
  "mem (invoke name st m w) = m"
  "fresh (invoke name st m w) = fresh w"
  by (simp_all add: invoke_def)

lemma free_effect [simp]:
  "allocated (free p w) = allocated w"
  "freed (free p w) = freed w @ [p]"
  "calls (free p w) = calls w"
  "mem (free p w) = mem w"
  "fresh (free p w) = fresh w"
  by (simp_all add: free_def)

lemma test_runtime_logs:
  "allocated test_runtime = []" "freed test_runtime = []" "calls test_runtime = []"
  by (simp_all add: test_runtime_def)

lemma upt3: "[0..<3] = [0, 1, 2]"
  by (simp add: upt_rec)

lemma replicate7: "replicate 7 c = [c, c, c, c, c, c, c]"
  by (simp add: numeral_eq_Suc)

lemma split_test:
  "h3AddressToSplitLong (Str ''8928308280fffff'') = (IntV 672137215, IntV 143819528)"
  by (simp add: parseInt16_def substring_def substring_from_def clamp_index_def
      digits_value_def digit_value_def is_space_def is_digit16_def BASE_16_def)

section \<open>Reading an identifier buffer\<close>

lemma readArrayOfHexagons_loop_step:
  assumes "k < nat n"
  shows "readArrayOfHexagons_loop m a n (2 * k) out =
           readArrayOfHexagons_loop m a n (2 * Suc k)
             (out @ map entry_to_string (filter (\<lambda>e. e \<noteq> (0, 0)) [buffer_entry m a k]))"
proof -
  have lt: "int (2 * k) < n * 2" using assms by auto
  have addr: "a + SZ_INT * (2 * k) = a + 8 * k" "a + SZ_INT * (2 * k + 1) = a + 8 * k + 4"
    by (simp_all add: SZ_INT_def)
  have step: "2 * k + 2 = 2 * Suc k" by simp
  show ?thesis
    apply (subst readArrayOfHexagons_loop.simps)
    apply (simp only: lt if_True addr step Let_def)
    apply (simp add: buffer_entry_def entry_to_string_def)
    done
qed

lemma readArrayOfHexagons_loop_eq:
  "k \<le> nat n \<Longrightarrow>
   readArrayOfHexagons_loop m a n (2 * k) out =
     out @ map entry_to_string
             (filter (\<lambda>e. e \<noteq> (0, 0)) (map (buffer_entry m a) [k..<nat n]))"
proof (induction "nat n - k" arbitrary: k out)
  case 0
  then have "\<not> int (2 * k) < n * 2" by auto
  moreover have "[k..<nat n] = []" using 0 by auto
  ultimately show ?case by (subst readArrayOfHexagons_loop.simps) simp
next
  case (Suc d)
  then have lt: "k < nat n" and d: "d = nat n - Suc k" and le: "Suc k \<le> nat n" by simp_all
  have upt: "[k..<nat n] = k # [Suc k..<nat n]" using lt by (simp add: upt_conv_Cons)
  show ?case
    unfolding readArrayOfHexagons_loop_step[OF lt] Suc.hyps(1)[OF d le] upt
    by simp
qed

lemma readArrayOfHexagons_eq:
  "readArrayOfHexagons m a n = buffer_ids m a n"
  using readArrayOfHexagons_loop_eq[of 0 n m a "[]"]
  by (simp add: readArrayOfHexagons_def buffer_ids_def)

lemma length_buffer_ids: "length (buffer_ids m a n) \<le> nat n"
proof -
  have "length (filter (\<lambda>e. e \<noteq> (0, 0)) (map (buffer_entry m a) [0..<nat n]))
          \<le> length (map (buffer_entry m a) [0..<nat n])"
    by (rule length_filter_le)
  then show ?thesis by (simp add: buffer_ids_def)
qed

section \<open>Resolution and unit validation\<close>

lemma validateRes_None_iff:
  "validateRes res = None \<longleftrightarrow> (\<exists>k::int. 0 \<le> k \<and> k \<le> 15 \<and> res = Number (of_int k))"
proof (cases res)
  case (Number r)
  show ?thesis
  proof
    assume "validateRes res = None"
    then have r: "0 \<le> r" "r \<le> 15" "\<exists>n. r = real_of_int n"
      using Number by (auto split: if_splits)
    then obtain n where n: "r = real_of_int n" by blast
    with r have "0 \<le> n" "n \<le> 15" by simp_all
    then show "\<exists>k::int. 0 \<le> k \<and> k \<le> 15 \<and> res = Number (of_int k)"
      using n Number by blast
  next
    assume "\<exists>k::int. 0 \<le> k \<and> k \<le> 15 \<and> res = Number (of_int k)"
    then obtain k :: int where "0 \<le> k" "k \<le> 15" "res = Number (of_int k)" by blast
    then show "validateRes res = None" by simp
  qed
qed simp_all

lemma validateRes_Some: "validateRes res = Some e \<Longrightarrow> e = InvalidResolution res"
  by (cases res) (auto split: if_splits)

lemma sixteen_invalid: "\<not> (\<exists>k::int. 0 \<le> k \<and> k \<le> 15 \<and> Number 16 = Number (of_int k))"
  by auto

lemma nine_valid: "\<exists>k::int. 0 \<le> k \<and> k \<le> 15 \<and> Number 9 = Number (of_int k)"
  by (rule exI[of _ 9]) simp

text \<open>
  C8. \<open>hexArea\<close> and \<open>edgeLength\<close> raise the invalid-resolution error for every resolution
  argument that is not one of the integers 0 to 15, and raise an error for every unit
  outside their two recognised units (the unknown-unit error when the resolution is
  valid). In both cases the runtime is returned as it was: no engine call was made.
\<close>

theorem hexArea_edgeLength_validate:
  "(\<not> (\<exists>k::int. 0 \<le> k \<and> k \<le> 15 \<and> res = Number (of_int k)) \<longrightarrow>
      hexArea eng res unit w = (Inl (InvalidResolution res), w) \<and>
      edgeLength eng res unit w = (Inl (InvalidResolution res), w)) \<and>
   (unit \<noteq> Str ''m2'' \<and> unit \<noteq> Str ''km2'' \<longrightarrow>
      hexArea eng res unit w =
        (Inl (if validateRes res = None then UnknownUnit unit else InvalidResolution res), w)) \<and>
   (unit \<noteq> Str ''m'' \<and> unit \<noteq> Str ''km'' \<longrightarrow>
      edgeLength eng res unit w =
        (Inl (if validateRes res = None then UnknownUnit unit else InvalidResolution res), w))"
proof -
  have inv: "validateRes res \<noteq> None \<Longrightarrow> validateRes res = Some (InvalidResolution res)"
    using validateRes_Some by (cases "validateRes res") auto
  show ?thesis
    using inv validateRes_None_iff[of res]
    by (cases "validateRes res")
       (auto simp: hexArea_def edgeLength_def UNITS_m_def UNITS_km_def UNITS_m2_def
          UNITS_km2_def)
qed

theorem hexArea_edgeLength_validate_witness:
  "\<not> (\<exists>k::int. 0 \<le> k \<and> k \<le> 15 \<and> Number 16 = Number (of_int k)) \<and>
   hexArea test_engine (Number 16) (Str ''km2'') test_runtime
     = (Inl (InvalidResolution (Number 16)), test_runtime) \<and>
   edgeLength test_engine (Number 16) (Str ''km'') test_runtime
     = (Inl (InvalidResolution (Number 16)), test_runtime) \<and>
   hexArea test_engine (Number 9) (Str ''km'') test_runtime
     = (Inl (UnknownUnit (Str ''km'')), test_runtime) \<and>
   edgeLength test_engine (Number 9) (Str ''km2'') test_runtime
     = (Inl (UnknownUnit (Str ''km2'')), test_runtime)"
  using sixteen_invalid
    hexArea_edgeLength_validate [of "Number 16" test_engine "Str ''km2''" test_runtime]
    hexArea_edgeLength_validate [of "Number 16" test_engine "Str ''km''" test_runtime]
    hexArea_edgeLength_validate [of "Number 9" test_engine "Str ''km''" test_runtime]
    hexArea_edgeLength_validate [of "Number 9" test_engine "Str ''km2''" test_runtime]
  by simp

section \<open>Polygon fill on empty input\<close>

text \<open>
  C6, as the code has it. \<open>polyfill\<close> validates the resolution before it looks at the
  loops. With an empty loop list (an empty array, or one whose first loop is empty) it
  returns the empty array when the resolution is one of the integers 0 to 15 and raises
  the invalid-resolution error otherwise; in both cases the runtime is returned as it
  was: no engine call, no allocation.
\<close>

theorem polyfill_empty_input:
  assumes "coordinates = Loops [] \<or> coordinates = SingleLoop [] \<or>
           (\<exists>ls. coordinates = Loops ([] # ls))"
  shows "polyfill eng coordinates res isGeoJson w =
           (if \<exists>k::int. 0 \<le> k \<and> k \<le> 15 \<and> res = Number (of_int k) then (Inr [], w)
            else (Inl (InvalidResolution res), w))"
proof -
  have e: "polyfill_empty coordinates" using assms by auto
  show ?thesis
  proof (cases "validateRes res")
    case None
    then show ?thesis using e validateRes_None_iff[of res] by (simp add: polyfill_def)
  next
    case (Some err)
    then show ?thesis using validateRes_Some[OF Some] validateRes_None_iff[of res]
      by (simp add: polyfill_def)
  qed
qed

theorem polyfill_empty_input_witness:
  "(Loops [[]] = Loops [] \<or> Loops [[]] = SingleLoop [] \<or> (\<exists>ls. Loops [[]] = Loops ([] # ls))) \<and>
   polyfill test_engine (Loops [[]]) (Number 9) True test_runtime = (Inr [], test_runtime)"
proof -
  have h: "Loops [[]] = Loops [] \<or> Loops [[]] = SingleLoop [] \<or>
           (\<exists>ls. Loops [[]] = Loops ([] # ls))"
    by simp
  show ?thesis
    using h nine_valid polyfill_empty_input [OF h, of test_engine "Number 9" True test_runtime]
    by simp
qed

text \<open>
  The claim as stated fails: with an empty loop list and resolution 16 the call raises
  instead of returning the empty array.
\<close>

theorem polyfill_empty_input_counterexample:
  "fst (polyfill test_engine (Loops []) (Number 16) False test_runtime)
     = Inl (InvalidResolution (Number 16)) \<and>
   fst (polyfill test_engine (Loops []) (Number 16) False test_runtime) \<noteq> Inr []"
  by (simp add: polyfill_def)

section \<open>Release on engine failure\<close>

lemma hexRing_releases:
  assumes "hexRing eng h3Address ringSize w = (r, w')"
  shows "all_released w w' \<and>
         (\<exists>rv. new_calls w w' = [(''hexRing'', Some rv)] \<and>
               (rv \<noteq> 0 \<longrightarrow>
                  r = Inl (Failure ''Failed to get hexRing (encountered a pentagon?)'')))"
proof -
  obtain p w1 where
    c: "calloc (int (if ringSize = 0 then 1 else 6 * ringSize)) (sizeOfH3Index eng) w = (p, w1)"
    by (cases "calloc (int (if ringSize = 0 then 1 else 6 * ringSize)) (sizeOfH3Index eng) w")
  obtain lo hi where s: "h3AddressToSplitLong h3Address = (lo, hi)"
    by (cases "h3AddressToSplitLong h3Address")
  obtain rv m2 where e: "H3_hexRing eng lo hi ringSize p (mem w1) = (rv, m2)"
    by (cases "H3_hexRing eng lo hi ringSize p (mem w1)")
  from calloc_effect[OF c] assms c s e show ?thesis
    by (auto simp: hexRing_def Let_def all_released_def new_blocks_def new_calls_def
        split: if_splits)
qed

lemma compact_releases:
  assumes "compact eng h3Set w = (r, w')"
  shows "all_released w w' \<and>
         (\<forall>rv. (''compact'', Some rv) \<in> set (new_calls w w') \<and> rv \<noteq> 0 \<longrightarrow>
               r = Inl (Failure
                 ''Failed to compact, malformed input data (duplicate hexagons?)''))"
proof (cases "length h3Set = 0")
  case True
  then show ?thesis using assms
    by (auto simp: compact_def all_released_def new_blocks_def new_calls_def)
next
  case False
  let ?n = "length h3Set"
  obtain s w1 where c1: "calloc (int ?n) (sizeOfH3Index eng) w = (s, w1)"
    by (cases "calloc (int ?n) (sizeOfH3Index eng) w")
  let ?w2 = "w1\<lparr>mem := storeArrayOfHexagons s h3Set (mem w1)\<rparr>"
  obtain cs w3 where c2: "calloc (int ?n) (sizeOfH3Index eng) ?w2 = (cs, w3)"
    by (cases "calloc (int ?n) (sizeOfH3Index eng) ?w2")
  obtain rv m4 where e: "H3_compact eng s cs ?n (mem w3) = (rv, m4)"
    by (cases "H3_compact eng s cs ?n (mem w3)")
  from calloc_effect[OF c1] calloc_effect[OF c2] assms c1 c2 e False show ?thesis
    by (auto simp: compact_def Let_def all_released_def new_blocks_def new_calls_def
        split: if_splits)
qed

lemma uncompact_releases:
  assumes "uncompact eng compactedSet res w = (r, w')"
  shows "all_released w w' \<and>
         (\<forall>rv. (''uncompact'', Some rv) \<in> set (new_calls w w') \<and> rv \<noteq> 0 \<longrightarrow>
               r = Inl (Failure ''Failed to uncompact (bad resolution?)''))"
proof (cases "validateRes res = None \<and> length compactedSet \<noteq> 0")
  case False
  then show ?thesis using assms
    by (auto simp: uncompact_def all_released_def new_blocks_def new_calls_def
        split: option.splits if_splits)
next
  case True
  let ?n = "length compactedSet"
  obtain s w1 where c1: "calloc (int ?n) (sizeOfH3Index eng) w = (s, w1)"
    by (cases "calloc (int ?n) (sizeOfH3Index eng) w")
  let ?w2 = "w1\<lparr>mem := storeArrayOfHexagons s compactedSet (mem w1)\<rparr>"
  let ?k = "H3_maxUncompactSize eng s ?n res (mem ?w2)"
  let ?w3 = "invoke ''maxUncompactSize'' (Some ?k) (mem ?w2) ?w2"
  obtain us w4 where c2: "calloc ?k (sizeOfH3Index eng) ?w3 = (us, w4)"
    by (cases "calloc ?k (sizeOfH3Index eng) ?w3")
  obtain rv m5 where e: "H3_uncompact eng s ?n us ?k res (mem w4) = (rv, m5)"
    by (cases "H3_uncompact eng s ?n us ?k res (mem w4)")
  from calloc_effect[OF c1] calloc_effect[OF c2] assms c1 c2 e True show ?thesis
    by (auto simp: uncompact_def Let_def all_released_def new_blocks_def new_calls_def
        split: if_splits)
qed

lemma hexRing_test:
  "fst (hexRing test_engine (Str ''8928308280fffff'') 2 test_runtime) =
     Inl (Failure ''Failed to get hexRing (encountered a pentagon?)'')"
  "allocated (snd (hexRing test_engine (Str ''8928308280fffff'') 2 test_runtime)) = [1024]"
  "freed (snd (hexRing test_engine (Str ''8928308280fffff'') 2 test_runtime)) = [1024]"
  "calls (snd (hexRing test_engine (Str ''8928308280fffff'') 2 test_runtime)) =
     [(''hexRing'', Some 1)]"
  by (simp_all add: hexRing_def split_test calloc_def malloc_def test_engine_def
      test_runtime_def Let_def)

lemma compact_test:
  "fst (compact test_engine [Str ''8928308280fffff''] test_runtime) =
     Inl (Failure ''Failed to compact, malformed input data (duplicate hexagons?)'')"
  "allocated (snd (compact test_engine [Str ''8928308280fffff''] test_runtime)) = [1024, 2048]"
  "freed (snd (compact test_engine [Str ''8928308280fffff''] test_runtime)) = [1024, 2048]"
  "calls (snd (compact test_engine [Str ''8928308280fffff''] test_runtime)) =
     [(''compact'', Some 1)]"
  by (simp_all add: compact_def calloc_def malloc_def test_engine_def test_runtime_def Let_def)

lemma uncompact_test:
  "fst (uncompact test_engine [Str ''8928308280fffff''] (Number 9) test_runtime) =
     Inl (Failure ''Failed to uncompact (bad resolution?)'')"
  "allocated (snd (uncompact test_engine [Str ''8928308280fffff''] (Number 9) test_runtime))
     = [1024, 2048]"
  "freed (snd (uncompact test_engine [Str ''8928308280fffff''] (Number 9) test_runtime))
     = [1024, 2048]"
  "calls (snd (uncompact test_engine [Str ''8928308280fffff''] (Number 9) test_runtime)) =
     [(''maxUncompactSize'', Some 1), (''uncompact'', Some 1)]"
  by (simp_all add: uncompact_def calloc_def malloc_def test_engine_def test_runtime_def
      Let_def)

text \<open>
  C3. For \<open>hexRing\<close>, \<open>compact\<close> and \<open>uncompact\<close>: whatever the outcome, the addresses
  the call frees are exactly the blocks it was handed, each once
  (\<open>all_released\<close>); and whenever the engine's entry point returned a non-zero status,
  the call raises the error that names the operation and its likely cause. The error is
  returned together with the runtime after the frees.
\<close>

theorem engine_failure_releases:
  "(hexRing eng h3Address ringSize w = (r1, w1) \<longrightarrow>
      all_released w w1 \<and>
      (\<forall>rv. (''hexRing'', Some rv) \<in> set (new_calls w w1) \<and> rv \<noteq> 0 \<longrightarrow>
            r1 = Inl (Failure ''Failed to get hexRing (encountered a pentagon?)''))) \<and>
   (compact eng h3Set w = (r2, w2) \<longrightarrow>
      all_released w w2 \<and>
      (\<forall>rv. (''compact'', Some rv) \<in> set (new_calls w w2) \<and> rv \<noteq> 0 \<longrightarrow>
            r2 = Inl (Failure
              ''Failed to compact, malformed input data (duplicate hexagons?)''))) \<and>
   (uncompact eng compactedSet res w = (r3, w3) \<longrightarrow>
      all_released w w3 \<and>
      (\<forall>rv. (''uncompact'', Some rv) \<in> set (new_calls w w3) \<and> rv \<noteq> 0 \<longrightarrow>
            r3 = Inl (Failure ''Failed to uncompact (bad resolution?)'')))"
  using hexRing_releases[of eng h3Address ringSize w r1 w1]
    compact_releases[of eng h3Set w r2 w2]
    uncompact_releases[of eng compactedSet res w r3 w3]
  by auto

theorem engine_failure_releases_witness:
  "(''hexRing'', Some 1) \<in> set (new_calls test_runtime
        (snd (hexRing test_engine (Str ''8928308280fffff'') 2 test_runtime))) \<and>
   fst (hexRing test_engine (Str ''8928308280fffff'') 2 test_runtime)
     = Inl (Failure ''Failed to get hexRing (encountered a pentagon?)'') \<and>
   all_released test_runtime (snd (hexRing test_engine (Str ''8928308280fffff'') 2 test_runtime)) \<and>
   (''compact'', Some 1) \<in> set (new_calls test_runtime
        (snd (compact test_engine [Str ''8928308280fffff''] test_runtime))) \<and>
   fst (compact test_engine [Str ''8928308280fffff''] test_runtime)
     = Inl (Failure ''Failed to compact, malformed input data (duplicate hexagons?)'') \<and>
   all_released test_runtime (snd (compact test_engine [Str ''8928308280fffff''] test_runtime)) \<and>
   (''uncompact'', Some 1) \<in> set (new_calls test_runtime
        (snd (uncompact test_engine [Str ''8928308280fffff''] (Number 9) test_runtime))) \<and>
   fst (uncompact test_engine [Str ''8928308280fffff''] (Number 9) test_runtime)
     = Inl (Failure ''Failed to uncompact (bad resolution?)'') \<and>
   all_released test_runtime
     (snd (uncompact test_engine [Str ''8928308280fffff''] (Number 9) test_runtime))"
proof -
  let ?h = "Str ''8928308280fffff''"
  let ?a = "hexRing test_engine ?h 2 test_runtime"
  let ?b = "compact test_engine [?h] test_runtime"
  let ?c = "uncompact test_engine [?h] (Number 9) test_runtime"
  have ca: "(''hexRing'', Some 1) \<in> set (new_calls test_runtime (snd ?a))"
    by (simp add: new_calls_def hexRing_test test_runtime_logs)
  have cb: "(''compact'', Some 1) \<in> set (new_calls test_runtime (snd ?b))"
    by (simp add: new_calls_def compact_test test_runtime_logs)
  have cc: "(''uncompact'', Some 1) \<in> set (new_calls test_runtime (snd ?c))"
    by (simp add: new_calls_def uncompact_test test_runtime_logs)
  have one: "(1::int) \<noteq> 0" by simp
  from engine_failure_releases [of test_engine ?h 2 test_runtime "fst ?a" "snd ?a"
      "[?h]" "fst ?b" "snd ?b" "[?h]" "Number 9" "fst ?c" "snd ?c"]
  have "all_released test_runtime (snd ?a) \<and>
        (\<forall>rv. (''hexRing'', Some rv) \<in> set (new_calls test_runtime (snd ?a)) \<and> rv \<noteq> 0 \<longrightarrow>
            fst ?a = Inl (Failure ''Failed to get hexRing (encountered a pentagon?)''))"
   and "all_released test_runtime (snd ?b) \<and>
        (\<forall>rv. (''compact'', Some rv) \<in> set (new_calls test_runtime (snd ?b)) \<and> rv \<noteq> 0 \<longrightarrow>
            fst ?b = Inl (Failure ''Failed to compact, malformed input data (duplicate hexagons?)''))"
   and "all_released test_runtime (snd ?c) \<and>
        (\<forall>rv. (''uncompact'', Some rv) \<in> set (new_calls test_runtime (snd ?c)) \<and> rv \<noteq> 0 \<longrightarrow>
            fst ?c = Inl (Failure ''Failed to uncompact (bad resolution?)''))"
    by simp_all
  with ca cb cc one show ?thesis by blast
qed



section \<open>Reading boundaries and linked polygons\<close>

lemma readGeoBoundary_loop_eq:
  "int k \<le> n \<or> (n < 0 \<and> k = 0) \<Longrightarrow>
   readGeoBoundary_loop m rc vp n (2 * k) out =
     out @ map (\<lambda>j. rc m (vp + 16 * j)) [k..<nat n]"
proof (induction "nat n - k" arbitrary: k out)
  case 0
  then have "\<not> int (2 * k) < n * 2" by auto
  moreover have "[k..<nat n] = []" using 0 by auto
  ultimately show ?case by (subst readGeoBoundary_loop.simps) simp
next
  case (Suc d)
  then have lt: "k < nat n" and d: "d = nat n - Suc k" and le: "int (Suc k) \<le> n" by auto
  have upt: "[k..<nat n] = k # [Suc k..<nat n]" using lt by (simp add: upt_conv_Cons)
  have cond: "int (2 * k) < n * 2" using lt by auto
  have step: "2 * k + 2 = 2 * Suc k" by simp
  have addr: "vp + SZ_DBL * (2 * k) = vp + 16 * k" by (simp add: SZ_DBL_def)
  have "readGeoBoundary_loop m rc vp n (2 * k) out =
          readGeoBoundary_loop m rc vp n (2 * Suc k) (out @ [rc m (vp + 16 * k)])"
    apply (subst readGeoBoundary_loop.simps)
    apply (simp only: cond if_True step addr)
    done
  also have "\<dots> = (out @ [rc m (vp + 16 * k)]) @ map (\<lambda>j. rc m (vp + 16 * j)) [Suc k..<nat n]"
    using Suc.hyps(1)[OF d] le by blast
  finally show ?case by (simp add: upt)
qed

lemma readGeoBoundary_eq:
  "readGeoBoundary m gb gj cl =
     (if cl then closed_loop (boundary_verts m gb gj) else boundary_verts m gb gj)"
proof -
  let ?n = "getValue_i32 m gb"
  have "int 0 \<le> ?n \<or> (?n < 0 \<and> (0::nat) = 0)" by auto
  from readGeoBoundary_loop_eq[OF this, of m "if gj then readGeoCoordGeoJson else readGeoCoord" "gb + SZ_DBL" "[]"]
  have "readGeoBoundary_loop m (if gj then readGeoCoordGeoJson else readGeoCoord) (gb + SZ_DBL) ?n 0 []
          = boundary_verts m gb gj"
    by (simp add: boundary_verts_def SZ_DBL_def add.assoc)
  then show ?thesis by (simp add: readGeoBoundary_def closed_loop_def Let_def)
qed

lemma coords_chain:
  "linked m 16 c as \<Longrightarrow> length as + 1 \<le> fuel \<Longrightarrow>
     readMultiPolygon_coords fuel m rc c acc = Some (acc @ map (rc m) as)"
proof (induction as arbitrary: fuel c acc)
  case Nil
  then obtain f where "fuel = Suc f" by (cases fuel) auto
  then show ?case using Nil by simp
next
  case (Cons a as)
  then obtain f where f: "fuel = Suc f" by (cases fuel) auto
  have "readMultiPolygon_coords f m rc (getValue_ptr m (a + 16)) (acc @ [rc m a])
          = Some ((acc @ [rc m a]) @ map (rc m) as)"
    using Cons.prems f by (intro Cons.IH) simp_all
  then show ?case using Cons.prems f by (simp add: SZ_DBL_def)
qed

lemma loops_chain:
  "linked_loops m l ls \<Longrightarrow> nodes_loops ls \<le> fuel \<Longrightarrow>
     readMultiPolygon_loops fuel m gj l acc
       = Some (acc @ map (\<lambda>x. render_loop m gj (snd x)) ls)"
proof (induction ls arbitrary: fuel l acc)
  case Nil
  then obtain f where "fuel = Suc f" by (cases fuel) auto
  then show ?case using Nil by simp
next
  case (Cons x ls)
  obtain a cs where x: "x = (a, cs)" by (cases x)
  from Cons.prems x obtain f where f: "fuel = Suc f" by (cases fuel) auto
  have la: "l = a" "a \<noteq> 0" and lc: "linked m 16 (getValue_ptr m a) cs"
    and lr: "linked_loops m (getValue_ptr m (a + 8)) ls"
    using Cons.prems(1) x by simp_all
  have fc: "length cs + 1 \<le> f" and fr: "nodes_loops ls \<le> f"
    using Cons.prems(2) x f by simp_all
  have c: "readMultiPolygon_coords f m (if gj then readGeoCoordGeoJson else readGeoCoord)
             (getValue_ptr m a) [] = Some (map (read_coord gj m) cs)"
    using coords_chain[OF lc fc, of "if gj then readGeoCoordGeoJson else readGeoCoord" "[]"]
    by (simp add: read_coord_def)
  have r: "readMultiPolygon_loops f m gj (getValue_ptr m (a + 8)) (acc @ [render_loop m gj cs])
             = Some ((acc @ [render_loop m gj cs]) @ map (\<lambda>x. render_loop m gj (snd x)) ls)"
    by (rule Cons.IH[OF lr fr])
  show ?case
    using la c r f x
    by (cases gj) (simp_all add: SZ_PTR_def render_loop_def closed_loop_def Let_def)
qed

lemma polygons_chain:
  "linked_polygons m p ps \<Longrightarrow> nodes_polygons ps \<le> fuel \<Longrightarrow>
     readMultiPolygon_polygons fuel m gj p acc
       = Some (acc @ map (\<lambda>x. render_polygon m gj (snd x)) ps)"
proof (induction ps arbitrary: fuel p acc)
  case Nil
  then obtain f where "fuel = Suc f" by (cases fuel) auto
  then show ?case using Nil by simp
next
  case (Cons x ps)
  obtain a ls where x: "x = (a, ls)" by (cases x)
  from Cons.prems x obtain f where f: "fuel = Suc f" by (cases fuel) auto
  have la: "p = a" "a \<noteq> 0" and lc: "linked_loops m (getValue_ptr m a) ls"
    and lr: "linked_polygons m (getValue_ptr m (a + 8)) ps"
    using Cons.prems(1) x by simp_all
  have fc: "nodes_loops ls \<le> f" and fr: "nodes_polygons ps \<le> f"
    using Cons.prems(2) x f by simp_all
  have c: "readMultiPolygon_loops f m gj (getValue_ptr m a) []
             = Some (map (\<lambda>x. render_loop m gj (snd x)) ls)"
    using loops_chain[OF lc fc, of gj "[]"] by simp
  have r: "readMultiPolygon_polygons f m gj (getValue_ptr m (a + 8)) (acc @ [render_polygon m gj ls])
             = Some ((acc @ [render_polygon m gj ls]) @ map (\<lambda>x. render_polygon m gj (snd x)) ps)"
    by (rule Cons.IH[OF lr fr])
  show ?case
    using la c r f x
    by (simp add: SZ_PTR_def render_polygon_def)
qed

lemma readMultiPolygon_eq:
  "linked_polygons m p ps \<Longrightarrow> nodes_polygons ps \<le> fuel \<Longrightarrow>
     readMultiPolygon fuel m p gj = Some (render_multi m gj ps)"
  using polygons_chain[of m p ps fuel gj "[]"]
  by (simp add: readMultiPolygon_def render_multi_def)

lemma h3ToGeoBoundary_eq:
  "fst (h3ToGeoBoundary eng h gj w) =
     (let gb = fresh w (length (allocated w));
          (lower, upper) = h3AddressToSplitLong h;
          vs = boundary_verts (H3_h3ToGeoBoundary eng lower upper gb (mem w)) gb gj
      in if gj then closed_loop vs else vs)"
  by (simp add: h3ToGeoBoundary_def malloc_def Let_def readGeoBoundary_eq split: prod.splits)

lemma edgeBoundary_eq:
  "fst (getH3UnidirectionalEdgeBoundary eng h gj w) =
     (let gb = fresh w (length (allocated w));
          (lower, upper) = h3AddressToSplitLong h
      in boundary_verts (H3_getH3UnidirectionalEdgeBoundary eng lower upper gb (mem w)) gb gj)"
  by (simp add: getH3UnidirectionalEdgeBoundary_def malloc_def Let_def readGeoBoundary_eq split: prod.splits)


section \<open>Canonical ranges of the points read\<close>

lemma radsToDegs_bounds:
  "0 \<le> r \<Longrightarrow> r \<le> pi \<Longrightarrow> 0 \<le> radsToDegs r \<and> radsToDegs r \<le> 180"
  "0 \<le> r \<Longrightarrow> r \<le> 2 * pi \<Longrightarrow> 0 \<le> radsToDegs r \<and> radsToDegs r \<le> 360"
  by (simp_all add: radsToDegs_def field_simps)

lemma constrain_bounds:
  "0 \<le> d \<Longrightarrow> d \<le> 180 \<Longrightarrow> - 90 < constrainLat d \<and> constrainLat d \<le> 90"
  "0 \<le> d \<Longrightarrow> d \<le> 360 \<Longrightarrow> - 180 < constrainLng d \<and> constrainLng d \<le> 180"
  by (auto simp: constrainLat_def constrainLng_def)

lemma read_canonical:
  assumes "in_engine_range m a"
  shows "canonical_point False (readGeoCoord m a)" "canonical_point True (readGeoCoordGeoJson m a)"
proof -
  have lat: "- 90 < constrainLat (readSingleCoord m a) \<and> constrainLat (readSingleCoord m a) \<le> 90"
    using assms radsToDegs_bounds(1)[of "getValue_double m a"] constrain_bounds(1)
    by (simp add: in_engine_range_def readSingleCoord_def)
  have lng: "- 180 < constrainLng (readSingleCoord m (a + SZ_DBL)) \<and>
             constrainLng (readSingleCoord m (a + SZ_DBL)) \<le> 180"
    using assms radsToDegs_bounds(2)[of "getValue_double m (a + 8)"] constrain_bounds(2)
    by (simp add: in_engine_range_def readSingleCoord_def SZ_DBL_def)
  show "canonical_point False (readGeoCoord m a)"
    using lat lng by (simp add: readGeoCoord_def canonical_def)
  show "canonical_point True (readGeoCoordGeoJson m a)"
    using lat lng by (simp add: readGeoCoordGeoJson_def canonical_def)
qed

lemma read_coord_canonical:
  "in_engine_range m a \<Longrightarrow> canonical_point gj (read_coord gj m a)"
  using read_canonical[of m a] by (cases gj) (simp_all add: read_coord_def)

lemma boundary_verts_canonical:
  assumes "\<forall>k < nat (getValue_i32 m gb). in_engine_range m (gb + 8 + 16 * k)"
  shows "\<forall>p \<in> set (boundary_verts m gb gj). canonical_point gj p"
  using assms read_coord_canonical[of m _ gj]
  by (auto simp: boundary_verts_def read_coord_def)

lemma render_loop_canonical:
  assumes "cs \<noteq> []" "list_all (in_engine_range m) cs"
  shows "list_all (canonical_point gj) (elements (render_loop m gj cs))"
proof -
  let ?pts = "map (read_coord gj m) cs"
  have pts: "list_all (canonical_point gj) ?pts"
    using assms(2) read_coord_canonical[of m _ gj] by (simp add: list_all_iff)
  have "?pts \<noteq> []" using assms(1) by simp
  then have "js_index ?pts 0 \<in> set ?pts"
    by (cases ?pts) (simp_all add: js_index_def)
  then have "canonical_point gj (js_index ?pts 0)"
    using pts unfolding list_all_iff by blast
  then show ?thesis using pts
    by (cases gj) (simp_all add: render_loop_def closed_loop_def Let_def)
qed

lemma render_multi_canonical:
  "coords_in_range m polygons \<Longrightarrow> multi_canonical gj (render_multi m gj polygons)"
proof -
  assume r: "coords_in_range m polygons"
  have "list_all (canonical_point gj) (elements (render_loop m gj (snd loop)))"
    if "polygon \<in> set polygons" "loop \<in> set (snd polygon)" for polygon loop
  proof -
    have "snd loop \<noteq> []" "list_all (in_engine_range m) (snd loop)"
      using r that by (auto simp: coords_in_range_def list_all_iff)
    then show ?thesis by (rule render_loop_canonical)
  qed
  then show ?thesis
    by (simp add: multi_canonical_def render_multi_def render_polygon_def list_all_iff)
qed

lemma readMultiPolygon_canonical:
  assumes "linked_polygons m p ps" "nodes_polygons ps \<le> fuel" "coords_in_range m ps"
  shows "\<exists>out. readMultiPolygon fuel m p gj = Some out \<and> multi_canonical gj out"
  using readMultiPolygon_eq[OF assms(1,2), of gj] render_multi_canonical[OF assms(3), of gj]
  by simp

lemma h3ToGeo_eq:
  "fst (h3ToGeo eng h w) =
     (let latlng = fresh w (length (allocated w));
          (lower, upper) = h3AddressToSplitLong h
      in readGeoCoord (H3_h3ToGeo eng lower upper latlng (mem w)) latlng)"
  by (simp add: h3ToGeo_def malloc_def Let_def split: prod.splits)

text \<open>
  C4. Every point comes from \<open>readGeoCoord\<close> or \<open>readGeoCoordGeoJson\<close>. When the
  engine's latitude lies in \<open>[0, 180]\<close> degrees and its longitude in \<open>[0, 360]\<close> degrees
  (stored in radians, converted on read), the latitude returned lies in \<open>(-90, 90]\<close> and
  the longitude in \<open>(-180, 180]\<close>, in either coordinate order. This holds for the two
  readers, for every vertex of a boundary read, for the centre that \<open>h3ToGeo\<close> returns,
  and for every point of the loops that \<open>readMultiPolygon\<close> returns on a well-formed
  linked structure. The doubles are idealised as reals.
\<close>

theorem points_canonical:
  "(in_engine_range m cAddress \<longrightarrow>
      canonical_point False (readGeoCoord m cAddress) \<and>
      canonical_point True (readGeoCoordGeoJson m cAddress)) \<and>
   ((\<forall>k < nat (getValue_i32 m geoBoundary). in_engine_range m (geoBoundary + 8 + 16 * k)) \<longrightarrow>
      (\<forall>p \<in> set (readGeoBoundary m geoBoundary geoJsonCoords False).
          canonical_point geoJsonCoords p)) \<and>
   ((let latlng = fresh w (length (allocated w));
         (lower, upper) = h3AddressToSplitLong h3Address
     in in_engine_range (H3_h3ToGeo eng lower upper latlng (mem w)) latlng) \<longrightarrow>
      canonical_point False (fst (h3ToGeo eng h3Address w))) \<and>
   (linked_polygons m polygon polygons \<and> nodes_polygons polygons \<le> fuel \<and>
    coords_in_range m polygons \<longrightarrow>
      (\<exists>output. readMultiPolygon fuel m polygon geoJsonCoords = Some output \<and>
                multi_canonical geoJsonCoords output))"
proof (intro conjI impI)
  assume "in_engine_range m cAddress"
  then show "canonical_point False (readGeoCoord m cAddress)"
    and "canonical_point True (readGeoCoordGeoJson m cAddress)"
    by (rule read_canonical)+
next
  assume "\<forall>k < nat (getValue_i32 m geoBoundary). in_engine_range m (geoBoundary + 8 + 16 * k)"
  then show "\<forall>p \<in> set (readGeoBoundary m geoBoundary geoJsonCoords False).
      canonical_point geoJsonCoords p"
    using boundary_verts_canonical by (simp add: readGeoBoundary_eq)
next
  assume "let latlng = fresh w (length (allocated w));
              (lower, upper) = h3AddressToSplitLong h3Address
          in in_engine_range (H3_h3ToGeo eng lower upper latlng (mem w)) latlng"
  then show "canonical_point False (fst (h3ToGeo eng h3Address w))"
    using read_canonical(1) by (auto simp: h3ToGeo_eq Let_def split: prod.splits)
next
  assume "linked_polygons m polygon polygons \<and> nodes_polygons polygons \<le> fuel \<and>
          coords_in_range m polygons"
  then show "\<exists>output. readMultiPolygon fuel m polygon geoJsonCoords = Some output \<and>
                      multi_canonical geoJsonCoords output"
    using readMultiPolygon_canonical by blast
qed

lemma sample_coord_range: "in_engine_range sample_coord 160"
  by (simp add: in_engine_range_def sample_coord_def getValue_double_def)

lemma sample_coord_read:
  "readGeoCoord sample_coord 160 = Arr [Number (- 45), Number (- 90)]"
  "readGeoCoordGeoJson sample_coord 160 = Arr [Number (- 90), Number (- 45)]"
  by (simp_all add: readGeoCoord_def readGeoCoordGeoJson_def readSingleCoord_def
      getValue_double_def sample_coord_def SZ_DBL_def radsToDegs_def constrainLat_def
      constrainLng_def)

lemma sample_coord_boundary:
  "nat (getValue_i32 sample_coord 152) = 1"
  "readGeoBoundary sample_coord 152 False False = [Arr [Number (- 45), Number (- 90)]]"
  using sample_coord_read
  by (simp_all add: readGeoBoundary_eq boundary_verts_def getValue_i32_def sample_coord_def)

lemma h3ToGeo_test:
  "fst (h3ToGeo test_engine (Str ''8928308280fffff'') test_runtime) = Arr [Number 0, Number 0]"
  by (simp add: h3ToGeo_eq split_test test_engine_def test_runtime_def test_memory_def
      readGeoCoord_def readSingleCoord_def getValue_double_def radsToDegs_def
      constrainLat_def constrainLng_def)

lemma sample_linked_range:
  "coords_in_range sample_linked [(64, [(96, [128, 160])])]"
  by (simp add: coords_in_range_def in_engine_range_def getValue_double_def sample_linked_def)

theorem points_canonical_witness:
  "in_engine_range sample_coord 160 \<and>
   readGeoCoord sample_coord 160 = Arr [Number (- 45), Number (- 90)] \<and>
   canonical_point False (readGeoCoord sample_coord 160) \<and>
   canonical_point True (readGeoCoordGeoJson sample_coord 160) \<and>
   readGeoBoundary sample_coord 152 False False = [Arr [Number (- 45), Number (- 90)]] \<and>
   canonical_point False (hd (readGeoBoundary sample_coord 152 False False)) \<and>
   canonical_point False (fst (h3ToGeo test_engine (Str ''8928308280fffff'') test_runtime)) \<and>
   linked_polygons sample_linked 64 [(64, [(96, [128, 160])])] \<and>
   nodes_polygons [(64, [(96, [128, 160])])] \<le> 5 \<and>
   coords_in_range sample_linked [(64, [(96, [128, 160])])] \<and>
   multi_canonical True (the (readMultiPolygon 5 sample_linked 64 True))"
proof -
  have b: "\<forall>k < nat (getValue_i32 sample_coord 152).
             in_engine_range sample_coord (152 + 8 + 16 * k)"
    using sample_coord_range by (simp add: sample_coord_boundary)
  have g: "let latlng = fresh test_runtime (length (allocated test_runtime));
               (lower, upper) = h3AddressToSplitLong (Str ''8928308280fffff'')
           in in_engine_range (H3_h3ToGeo test_engine lower upper latlng (mem test_runtime))
                latlng"
    by (simp add: split_test test_engine_def test_runtime_def test_memory_def
        in_engine_range_def getValue_double_def)
  have mem: "hd (readGeoBoundary sample_coord 152 False False)
               \<in> set (readGeoBoundary sample_coord 152 False False)"
    by (simp add: sample_coord_boundary)
  have l: "linked_polygons sample_linked 64 [(64, [(96, [128, 160])])]"
    "nodes_polygons [(64, [(96, [128, 160])])] \<le> 5"
    by (simp_all add: sample_linked_def getValue_ptr_def)
  have first: "canonical_point False (readGeoCoord sample_coord 160) \<and>
      canonical_point True (readGeoCoordGeoJson sample_coord 160) \<and>
      canonical_point False (hd (readGeoBoundary sample_coord 152 False False)) \<and>
      canonical_point False (fst (h3ToGeo test_engine (Str ''8928308280fffff'') test_runtime))"
    using sample_coord_range b g mem
      points_canonical [where m = sample_coord and cAddress = 160 and geoBoundary = 152
        and geoJsonCoords = False and w = test_runtime
        and h3Address = "Str ''8928308280fffff''" and eng = test_engine]
    by blast
  have "\<exists>output. readMultiPolygon 5 sample_linked 64 True = Some output \<and>
                  multi_canonical True output"
    using l sample_linked_range
      points_canonical [where m = sample_linked and polygon = 64
        and polygons = "[(64, [(96, [128, 160])])]" and fuel = 5 and geoJsonCoords = True]
    by blast
  then have second: "multi_canonical True (the (readMultiPolygon 5 sample_linked 64 True))"
    by auto
  show ?thesis
    using sample_coord_range sample_coord_read(1) sample_coord_boundary(2) l
      sample_linked_range first second
    by simp
qed


section \<open>The closing point of a loop\<close>

text \<open>
  C5, as the code has it. \<open>h3ToGeoBoundary\<close> returns the vertices of the boundary
  record, followed in GeoJSON mode by the first of them, and nothing more otherwise.
  \<open>readMultiPolygon\<close>, on a well-formed linked structure and with a bound that covers
  its nodes, returns the structure's loops, each closed in GeoJSON mode and open
  otherwise. \<open>getH3UnidirectionalEdgeBoundary\<close> returns the vertices alone in both modes:
  it never appends a closing point.
\<close>

theorem closing_point:
  "fst (h3ToGeoBoundary eng h3Address formatAsGeoJson w) =
     (let geoBoundary = fresh w (length (allocated w));
          (lower, upper) = h3AddressToSplitLong h3Address;
          verts = boundary_verts (H3_h3ToGeoBoundary eng lower upper geoBoundary (mem w))
                    geoBoundary formatAsGeoJson
      in if formatAsGeoJson then closed_loop verts else verts) \<and>
   fst (getH3UnidirectionalEdgeBoundary eng edgeAddress formatAsGeoJson w) =
     (let geoBoundary = fresh w (length (allocated w));
          (lower, upper) = h3AddressToSplitLong edgeAddress
      in boundary_verts (H3_getH3UnidirectionalEdgeBoundary eng lower upper geoBoundary (mem w))
           geoBoundary formatAsGeoJson) \<and>
   (linked_polygons m polygon polygons \<and> nodes_polygons polygons \<le> fuel \<longrightarrow>
      readMultiPolygon fuel m polygon formatAsGeoJson
        = Some (render_multi m formatAsGeoJson polygons))"
  using readMultiPolygon_eq[of m polygon polygons fuel formatAsGeoJson]
  by (simp only: h3ToGeoBoundary_eq edgeBoundary_eq) simp

lemma split_edge_test:
  "h3AddressToSplitLong (Str ''115283473fffffff'') = (IntV 1073741823, IntV 290620231)"
  by (simp add: parseInt16_def substring_def substring_from_def clamp_index_def
      digits_value_def digit_value_def is_space_def is_digit16_def BASE_16_def)

lemma upt2: "[0..<2] = [0, 1]"
  by (simp add: upt_rec)

lemma test_boundary_verts:
  "boundary_verts (test_boundary 1024 test_memory) 1024 True
     = [Arr [Number 0, Number 0], Arr [Number 90, Number 45]]"
  "boundary_verts (test_boundary 1024 test_memory) 1024 False
     = [Arr [Number 0, Number 0], Arr [Number 45, Number 90]]"
  by (simp_all add: boundary_verts_def test_boundary_def test_memory_def setValue_i32_def
      getValue_i32_def upt2 readGeoCoordGeoJson_def readGeoCoord_def readSingleCoord_def
      getValue_double_def SZ_DBL_def radsToDegs_def constrainLat_def constrainLng_def)

lemma edge_test:
  "fst (getH3UnidirectionalEdgeBoundary test_engine (Str ''115283473fffffff'') True test_runtime)
     = [Arr [Number 0, Number 0], Arr [Number 90, Number 45]]"
  by (simp add: edgeBoundary_eq split_edge_test test_engine_def test_runtime_def
      test_boundary_verts)

lemma cell_test:
  "fst (h3ToGeoBoundary test_engine (Str ''8928308280fffff'') True test_runtime)
     = [Arr [Number 0, Number 0], Arr [Number 90, Number 45], Arr [Number 0, Number 0]]"
  "fst (h3ToGeoBoundary test_engine (Str ''8928308280fffff'') False test_runtime)
     = [Arr [Number 0, Number 0], Arr [Number 45, Number 90]]"
  by (simp_all add: h3ToGeoBoundary_eq split_test test_engine_def test_runtime_def
      test_boundary_verts closed_loop_def js_index_def)

lemma sample_linked_struct:
  "linked_polygons sample_linked 64 [(64, [(96, [128, 160])])]"
  "nodes_polygons [(64, [(96, [128, 160])])] \<le> 5"
  by (simp_all add: sample_linked_def getValue_ptr_def)

lemma sample_linked_render:
  "render_multi sample_linked True [(64, [(96, [128, 160])])]
     = [Arr [Arr [Arr [Number 0, Number 0], Arr [Number 90, Number 45], Arr [Number 0, Number 0]]]]"
  "render_multi sample_linked False [(64, [(96, [128, 160])])]
     = [Arr [Arr [Arr [Number 0, Number 0], Arr [Number 45, Number 90]]]]"
  by (simp_all add: render_multi_def render_polygon_def render_loop_def read_coord_def
      closed_loop_def js_index_def sample_linked_def
      readGeoCoordGeoJson_def readGeoCoord_def readSingleCoord_def
      getValue_double_def SZ_DBL_def radsToDegs_def constrainLat_def constrainLng_def)

theorem closing_point_witness:
  "linked_polygons sample_linked 64 [(64, [(96, [128, 160])])] \<and>
   nodes_polygons [(64, [(96, [128, 160])])] \<le> 5 \<and>
   readMultiPolygon 5 sample_linked 64 True
     = Some [Arr [Arr [Arr [Number 0, Number 0], Arr [Number 90, Number 45],
                       Arr [Number 0, Number 0]]]] \<and>
   readMultiPolygon 5 sample_linked 64 False
     = Some [Arr [Arr [Arr [Number 0, Number 0], Arr [Number 45, Number 90]]]]"
  using sample_linked_struct sample_linked_render
    closing_point [of test_engine Undefined True test_runtime Undefined sample_linked 64
      "[(64, [(96, [128, 160])])]" 5]
    closing_point [of test_engine Undefined False test_runtime Undefined sample_linked 64
      "[(64, [(96, [128, 160])])]" 5]
  by simp

text \<open>
  The claim as stated fails for the edge boundary: in GeoJSON mode the two vertices are
  returned without a closing point.
\<close>

theorem closing_point_counterexample:
  "fst (getH3UnidirectionalEdgeBoundary test_engine (Str ''115283473fffffff'') True test_runtime)
     = [Arr [Number 0, Number 0], Arr [Number 90, Number 45]] \<and>
   last (fst (getH3UnidirectionalEdgeBoundary test_engine (Str ''115283473fffffff'') True
                test_runtime))
     \<noteq> hd (fst (getH3UnidirectionalEdgeBoundary test_engine (Str ''115283473fffffff'') True
                test_runtime))"
  by (simp add: edge_test)


section \<open>Tearing down a polygon struct\<close>

lemma HEAPF64_set_HEAP32 [simp]: "HEAP32 (HEAPF64_set vs i m) = HEAP32 m"
  by (induction vs arbitrary: i m) simp_all

lemma polygonArrayToGeofence_loop_HEAP32 [simp]:
  "HEAP32 (polygonArrayToGeofence_loop polygonArray g latI lngI i m) = HEAP32 m"
proof (induction polygonArray g latI lngI i m rule: polygonArrayToGeofence_loop.induct)
  case (1 polygonArray g latI lngI i m)
  then show ?case by (subst polygonArrayToGeofence_loop.simps) simp
qed

lemma destroy_no_holes:
  assumes "getValue_i32 (mem w) (geoPolygon + sizeOfGeofence eng) \<le> 0"
  shows "freed (destroyGeoPolygon eng geoPolygon w)
           = freed w @ [getValue_ptr (mem w) geoPolygon, geoPolygon] \<and>
         allocated (destroyGeoPolygon eng geoPolygon w) = allocated w"
  using assms
  by (simp add: destroyGeoPolygon_def Let_def destroyGeoPolygon_loop.simps)

lemma build_test:
  "fst (coordinatesToGeoPolygon test_engine [[(0, 0), (0, 1), (1, 0)]] False test_runtime)
     = Inr 1024"
  "allocated (snd (coordinatesToGeoPolygon test_engine [[(0, 0), (0, 1), (1, 0)]] False
      test_runtime)) = [1024, 2048]"
  "freed (snd (coordinatesToGeoPolygon test_engine [[(0, 0), (0, 1), (1, 0)]] False
      test_runtime)) = []"
  "HEAP32 (mem (snd (coordinatesToGeoPolygon test_engine [[(0, 0), (0, 1), (1, 0)]] False
      test_runtime))) 256 = 3"
  "HEAP32 (mem (snd (coordinatesToGeoPolygon test_engine [[(0, 0), (0, 1), (1, 0)]] False
      test_runtime))) 257 = 2048"
  "HEAP32 (mem (snd (coordinatesToGeoPolygon test_engine [[(0, 0), (0, 1), (1, 0)]] False
      test_runtime))) 258 = 0"
  by (simp_all add: coordinatesToGeoPolygon_def polygonArrayToGeofence_def calloc_def malloc_def
      test_engine_def test_runtime_def Let_def setValue_i32_def SZ_INT_def)


lemma build_hole_test:
  "fst (coordinatesToGeoPolygon test_engine
          [[(0, 0), (0, 4), (4, 0)], [(1, 1), (1, 2), (2, 1), (2, 2)]] False test_runtime)
     = Inr 1024"
  "allocated (snd (coordinatesToGeoPolygon test_engine
          [[(0, 0), (0, 4), (4, 0)], [(1, 1), (1, 2), (2, 1), (2, 2)]] False test_runtime))
     = [1024, 2048, 3072, 4096]"
  "freed (snd (coordinatesToGeoPolygon test_engine
          [[(0, 0), (0, 4), (4, 0)], [(1, 1), (1, 2), (2, 1), (2, 2)]] False test_runtime))
     = []"
  "HEAP32 (mem (snd (coordinatesToGeoPolygon test_engine
          [[(0, 0), (0, 4), (4, 0)], [(1, 1), (1, 2), (2, 1), (2, 2)]] False test_runtime))) 256 = 3"
  "HEAP32 (mem (snd (coordinatesToGeoPolygon test_engine
          [[(0, 0), (0, 4), (4, 0)], [(1, 1), (1, 2), (2, 1), (2, 2)]] False test_runtime))) 258 = 1"
  "HEAP32 (mem (snd (coordinatesToGeoPolygon test_engine
          [[(0, 0), (0, 4), (4, 0)], [(1, 1), (1, 2), (2, 1), (2, 2)]] False test_runtime))) 259 = 3072"
  by (simp_all add: coordinatesToGeoPolygon_def polygonArrayToGeofence_def calloc_def malloc_def
      test_engine_def test_runtime_def Let_def setValue_i32_def SZ_INT_def
      coordinatesToGeoPolygon_holes.simps zero_fill_def)


lemma destroy_hole_test:
  "freed (destroyGeoPolygon test_engine 1024
     (snd (coordinatesToGeoPolygon test_engine
          [[(0, 0), (0, 4), (4, 0)], [(1, 1), (1, 2), (2, 1), (2, 2)]] False test_runtime)))
     = [3, 3072, 1024]"
  "allocated (destroyGeoPolygon test_engine 1024
     (snd (coordinatesToGeoPolygon test_engine
          [[(0, 0), (0, 4), (4, 0)], [(1, 1), (1, 2), (2, 1), (2, 2)]] False test_runtime)))
     = [1024, 2048, 3072, 4096]"
proof -
  let ?w = "snd (coordinatesToGeoPolygon test_engine
          [[(0, 0), (0, 4), (4, 0)], [(1, 1), (1, 2), (2, 1), (2, 2)]] False test_runtime)"
  have sz: "sizeOfGeofence test_engine = 8" by (simp add: test_engine_def)
  have loop: "destroyGeoPolygon_loop test_engine 1024 1 0 (free 3 ?w) = free 3072 (free 3 ?w)"
    apply (subst destroyGeoPolygon_loop.simps)
    apply (subst destroyGeoPolygon_loop.simps)
    apply (simp add: sz SZ_INT_def getValue_ptr_def build_hole_test)
    done
  show "freed (destroyGeoPolygon test_engine 1024 ?w) = [3, 3072, 1024]"
    by (simp add: destroyGeoPolygon_def Let_def sz getValue_ptr_def getValue_i32_def
        build_hole_test loop)
  show "allocated (destroyGeoPolygon test_engine 1024 ?w) = [1024, 2048, 3072, 4096]"
    by (simp add: destroyGeoPolygon_def Let_def sz getValue_ptr_def getValue_i32_def
        build_hole_test loop)
qed

lemma destroy_test:
  "freed (destroyGeoPolygon test_engine 1024
     (snd (coordinatesToGeoPolygon test_engine [[(0, 0), (0, 1), (1, 0)]] False test_runtime)))
     = [3, 1024]"
  "allocated (destroyGeoPolygon test_engine 1024
     (snd (coordinatesToGeoPolygon test_engine [[(0, 0), (0, 1), (1, 0)]] False test_runtime)))
     = [1024, 2048]"
proof -
  let ?b = "coordinatesToGeoPolygon test_engine [[(0, 0), (0, 1), (1, 0)]] False test_runtime"
  have sz: "sizeOfGeofence test_engine = 8" by (simp add: test_engine_def)
  have "getValue_i32 (mem (snd ?b)) (1024 + sizeOfGeofence test_engine) \<le> 0"
    by (simp add: sz getValue_i32_def build_test)
  from destroy_no_holes[OF this]
  show "freed (destroyGeoPolygon test_engine 1024 (snd ?b)) = [3, 1024]"
    and "allocated (destroyGeoPolygon test_engine 1024 (snd ?b)) = [1024, 2048]"
    by (simp_all add: getValue_ptr_def build_test)
qed

text \<open>
  C1 fails on the code. \<open>destroyGeoPolygon\<close> reads the address to free at offset 0 of
  a loop record, where \<open>polygonArrayToGeofence\<close> stored the vertex count; the pointer
  to the coordinate array is at offset 4. For the holes it reads inside the polygon
  header instead of the holes array. On a polygon of one loop with three vertices, built
  at 1024 with its coordinate array at 2048, it frees the addresses 3 and 1024: the
  coordinate array is never freed and 3 was never allocated. With one hole (holes array
  at 3072, the hole's coordinate array at 4096) it frees 3, 3072 and 1024: neither
  coordinate array is freed.
\<close>

theorem destroyGeoPolygon_frees_wrong_addresses:
  "(let (r, w1) = coordinatesToGeoPolygon test_engine [[(0, 0), (0, 1), (1, 0)]] False
                    test_runtime;
        w2 = destroyGeoPolygon test_engine 1024 w1
    in r = Inr 1024 \<and> allocated w2 = [1024, 2048] \<and> freed w2 = [3, 1024]) \<and>
   (let (r, w1) = coordinatesToGeoPolygon test_engine
                    [[(0, 0), (0, 4), (4, 0)], [(1, 1), (1, 2), (2, 1), (2, 2)]] False
                    test_runtime;
        w2 = destroyGeoPolygon test_engine 1024 w1
    in r = Inr 1024 \<and> allocated w2 = [1024, 2048, 3072, 4096] \<and> freed w2 = [3, 3072, 1024])"
  using build_test(1) destroy_test build_hole_test(1) destroy_hole_test
  by (simp add: split_beta)

section \<open>Queries that read an identifier buffer\<close>

text \<open>
  Logging an engine call changes neither the memory nor the allocator, so the buffer a
  query allocates after the call to the estimator is the one it would get before it.
\<close>

lemma calloc_agree:
  assumes "mem w = mem v" "fresh w = fresh v" "allocated w = allocated v"
  shows "fst (calloc n b w) = fst (calloc n b v)"
    and "mem (snd (calloc n b w)) = mem (snd (calloc n b v))"
    and "fresh (snd (calloc n b w)) = fresh (snd (calloc n b v))"
    and "allocated (snd (calloc n b w)) = allocated (snd (calloc n b v))"
  using assms by (simp_all add: calloc_def malloc_def Let_def)

lemma calloc_invoke:
  assumes "m = mem w"
  shows "fst (calloc n b (invoke name st m w)) = fst (calloc n b w)"
    and "mem (snd (calloc n b (invoke name st m w))) = mem (snd (calloc n b w))"
    and "fresh (snd (calloc n b (invoke name st m w))) = fresh (snd (calloc n b w))"
    and "allocated (snd (calloc n b (invoke name st m w))) = allocated (snd (calloc n b w))"
  using assms by (simp_all add: calloc_def malloc_def invoke_def Let_def)

lemma kRing_eq:
  "fst (kRing eng h3Address ringSize w) =
     (let (lower, upper) = h3AddressToSplitLong h3Address;
          maxCount = H3_maxKringSize eng ringSize;
          (hexagons, w1) = calloc maxCount (sizeOfH3Index eng) w
      in buffer_ids (H3_kRing eng lower upper ringSize hexagons (mem w1)) hexagons maxCount)"
  by (simp add: kRing_def Let_def split_beta readArrayOfHexagons_eq calloc_invoke)

lemma h3ToChildren_eq:
  "fst (h3ToChildren eng h3Address res w) =
     (let (lower, upper) = h3AddressToSplitLong h3Address;
          maxCount = H3_maxH3ToChildrenSize eng lower upper res;
          (hexagons, w1) = calloc maxCount (sizeOfH3Index eng) w
      in buffer_ids (H3_h3ToChildren eng lower upper res hexagons (mem w1)) hexagons maxCount)"
  by (simp add: h3ToChildren_def Let_def split_beta readArrayOfHexagons_eq calloc_invoke)

lemma hexRing_eq:
  "fst (hexRing eng h3Address ringSize w) =
     (let maxCount = int (if ringSize = 0 then 1 else 6 * ringSize);
          (hexagons, w1) = calloc maxCount (sizeOfH3Index eng) w;
          (lower, upper) = h3AddressToSplitLong h3Address;
          (retVal, m2) = H3_hexRing eng lower upper ringSize hexagons (mem w1)
      in if retVal \<noteq> 0
         then Inl (Failure ''Failed to get hexRing (encountered a pentagon?)'')
         else Inr (buffer_ids m2 hexagons maxCount))"
  by (simp add: hexRing_def Let_def split_beta readArrayOfHexagons_eq)

lemma polyfill_eq:
  assumes "validateRes res = None" "\<not> polyfill_empty coordinates"
  shows "fst (polyfill eng coordinates res isGeoJson w) =
     (case coordinatesToGeoPolygon eng (polyfill_wrap coordinates) isGeoJson w of
        (Inl e, w1) \<Rightarrow> Inl e
      | (Inr geoPolygon, w1) \<Rightarrow>
          let arrayLen = H3_maxPolyfillSize eng geoPolygon res (mem w1);
              (hexagons, w2) = calloc arrayLen (sizeOfH3Index eng) w1
          in Inr (buffer_ids (H3_polyfill eng geoPolygon res hexagons (mem w2)) hexagons
                    arrayLen))"
  using assms
  by (simp add: polyfill_def Let_def split_beta readArrayOfHexagons_eq calloc_invoke
      split: prod.splits sum.splits)

lemma compact_eq:
  assumes "h3Set \<noteq> []"
  shows "fst (compact eng h3Set w) =
     (let count = length h3Set;
          (set, w1) = calloc (int count) (sizeOfH3Index eng) w;
          w2 = w1\<lparr>mem := storeArrayOfHexagons set h3Set (mem w1)\<rparr>;
          (compactedSet, w3) = calloc (int count) (sizeOfH3Index eng) w2;
          (retVal, m4) = H3_compact eng set compactedSet count (mem w3)
      in if retVal \<noteq> 0
         then Inl (Failure ''Failed to compact, malformed input data (duplicate hexagons?)'')
         else Inr (buffer_ids m4 compactedSet (int count)))"
  using assms
  by (simp add: compact_def Let_def split_beta readArrayOfHexagons_eq)

lemma uncompact_eq:
  assumes "validateRes res = None" "compactedSet \<noteq> []"
  shows "fst (uncompact eng compactedSet res w) =
     (let count = length compactedSet;
          (set, w1) = calloc (int count) (sizeOfH3Index eng) w;
          w2 = w1\<lparr>mem := storeArrayOfHexagons set compactedSet (mem w1)\<rparr>;
          maxUncompactedNum = H3_maxUncompactSize eng set count res (mem w2);
          (uncompactedSet, w3) = calloc maxUncompactedNum (sizeOfH3Index eng) w2;
          (retVal, m4) =
            H3_uncompact eng set count uncompactedSet maxUncompactedNum res (mem w3)
      in if retVal \<noteq> 0
         then Inl (Failure ''Failed to uncompact (bad resolution?)'')
         else Inr (buffer_ids m4 uncompactedSet maxUncompactedNum))"
  using assms
  by (simp add: uncompact_def Let_def split_beta readArrayOfHexagons_eq calloc_invoke)

lemma edge_indexes_eq:
  "fst (getH3IndexesFromUnidirectionalEdge eng edgeAddress w) =
     (let (lower, upper) = h3AddressToSplitLong edgeAddress;
          (hexagons, w1) = calloc 2 (sizeOfH3Index eng) w
      in buffer_ids (H3_getH3IndexesFromUnidirectionalEdge eng lower upper hexagons (mem w1))
           hexagons 2)"
  by (simp add: getH3IndexesFromUnidirectionalEdge_def Let_def split_beta readArrayOfHexagons_eq)

lemma edges_from_eq:
  "fst (getH3UnidirectionalEdgesFromHexagon eng h3Address w) =
     (let (lower, upper) = h3AddressToSplitLong h3Address;
          (edges, w1) = calloc 6 (sizeOfH3Index eng) w
      in buffer_ids (H3_getH3UnidirectionalEdgesFromHexagon eng lower upper edges (mem w1))
           edges 6)"
  by (simp add: getH3UnidirectionalEdgesFromHexagon_def Let_def split_beta readArrayOfHexagons_eq)

text \<open>The loop of \<^verbatim>\<open>kRingDistances\<close> appends each non-sentinel entry to the ring of its distance.\<close>

lemma ids_from_step:
  assumes "k < nat n"
  shows "ids_from m a d n k r =
           (if buffer_entry m a k \<noteq> (0, 0) \<and> entry_distance m d k = int r
            then [entry_to_string (buffer_entry m a k)] else []) @ ids_from m a d n (Suc k) r"
proof -
  have "[k..<nat n] = k # [Suc k..<nat n]" using assms by (simp add: upt_conv_Cons)
  then show ?thesis by (simp add: ids_from_def)
qed

lemma kRingDistances_loop_unfold:
  assumes "k < nat n"
  shows "kRingDistances_loop m a d n (2 * k) out =
           (if buffer_entry m a k \<noteq> (0, 0) then
              (if 0 \<le> entry_distance m d k \<and> entry_distance m d k < int (length out) then
                 kRingDistances_loop m a d n (2 * Suc k)
                   (out[nat (entry_distance m d k) :=
                          out ! nat (entry_distance m d k) @ [entry_to_string (buffer_entry m a k)]])
               else Inl TypeError)
            else kRingDistances_loop m a d n (2 * Suc k) out)"
proof -
  have lt: "int (2 * k) < n * 2" using assms by auto
  have addr: "a + SZ_INT * (2 * k) = a + 8 * k" "a + SZ_INT * (2 * k + 1) = a + 8 * k + 4"
    "d + SZ_INT * (2 * k div 2) = d + 4 * k"
    by (simp_all add: SZ_INT_def)
  have step: "2 * k + 2 = 2 * Suc k" by simp
  show ?thesis
    apply (subst kRingDistances_loop.simps)
    apply (simp only: lt if_True addr step Let_def)
    apply (simp add: buffer_entry_def entry_to_string_def entry_distance_def)
    done
qed

lemma kRingDistances_loop_eq:
  assumes "k \<le> nat n"
    and "\<forall>j. k \<le> j \<and> j < nat n \<and> buffer_entry m a j \<noteq> (0, 0) \<longrightarrow>
             0 \<le> entry_distance m d j \<and> entry_distance m d j < int (length out)"
  shows "kRingDistances_loop m a d n (2 * k) out =
           Inr (map (\<lambda>r. out ! r @ ids_from m a d n k r) [0..<length out])"
  using assms
proof (induction "nat n - k" arbitrary: k out)
  case 0
  then have "\<not> int (2 * k) < n * 2" by auto
  moreover have "[k..<nat n] = []" using 0 by auto
  ultimately show ?case
    by (subst kRingDistances_loop.simps) (simp add: ids_from_def map_nth)
next
  case (Suc x)
  then have lt: "k < nat n" and x: "x = nat n - Suc k" and le: "Suc k \<le> nat n" by simp_all
  let ?e = "buffer_entry m a k" and ?dk = "entry_distance m d k"
  show ?case
  proof (cases "?e = (0, 0)")
    case True
    have later: "\<forall>j. Suc k \<le> j \<and> j < nat n \<and> buffer_entry m a j \<noteq> (0, 0) \<longrightarrow>
             0 \<le> entry_distance m d j \<and> entry_distance m d j < int (length out)"
      using Suc.prems(2) by auto
    have "kRingDistances_loop m a d n (2 * k) out = kRingDistances_loop m a d n (2 * Suc k) out"
      using True by (simp add: kRingDistances_loop_unfold[OF lt])
    also have "\<dots> = Inr (map (\<lambda>r. out ! r @ ids_from m a d n (Suc k) r) [0..<length out])"
      by (rule Suc.hyps(1)[OF x le later])
    finally show ?thesis using True by (simp add: ids_from_step[OF lt])
  next
    case False
    then have range: "0 \<le> ?dk" "?dk < int (length out)"
      using Suc.prems(2) lt by auto
    let ?s = "entry_to_string ?e"
    let ?out = "out[nat ?dk := out ! nat ?dk @ [?s]]"
    have later: "\<forall>j. Suc k \<le> j \<and> j < nat n \<and> buffer_entry m a j \<noteq> (0, 0) \<longrightarrow>
             0 \<le> entry_distance m d j \<and> entry_distance m d j < int (length ?out)"
      using Suc.prems(2) by auto
    have "kRingDistances_loop m a d n (2 * k) out = kRingDistances_loop m a d n (2 * Suc k) ?out"
      using False range by (simp add: kRingDistances_loop_unfold[OF lt])
    also have "\<dots> = Inr (map (\<lambda>r. ?out ! r @ ids_from m a d n (Suc k) r) [0..<length ?out])"
      by (rule Suc.hyps(1)[OF x le later])
    also have "map (\<lambda>r. ?out ! r @ ids_from m a d n (Suc k) r) [0..<length ?out]
                 = map (\<lambda>r. out ! r @ ids_from m a d n k r) [0..<length out]"
    proof (rule map_cong)
      show "[0..<length ?out] = [0..<length out]" by simp
    next
      fix r assume "r \<in> set [0..<length out]"
      then have r: "r < length out" by simp
      show "?out ! r @ ids_from m a d n (Suc k) r = out ! r @ ids_from m a d n k r"
      proof (cases "r = nat ?dk")
        case True
        then have "?dk = int r" using range by simp
        then show ?thesis using True r False
          by (simp add: ids_from_step[OF lt])
      next
        case neq: False
        then have "?dk \<noteq> int r" using range by auto
        then show ?thesis using neq r
          by (simp add: ids_from_step[OF lt])
      qed
    qed
    finally show ?thesis .
  qed
qed

lemma ring_ids_ids_from: "ring_ids m a d n r = ids_from m a d n 0 r"
  by (simp add: ring_ids_def ids_from_def)

lemma kRingDistances_loop_rings:
  assumes "\<forall>j < nat n. buffer_entry m a j \<noteq> (0, 0) \<longrightarrow>
             0 \<le> entry_distance m d j \<and> entry_distance m d j \<le> int ringSize"
  shows "kRingDistances_loop m a d n 0 (replicate (ringSize + 1) []) =
           Inr (map (ring_ids m a d n) [0..<ringSize + 1])"
proof -
  have "\<forall>j. 0 \<le> j \<and> j < nat n \<and> buffer_entry m a j \<noteq> (0, 0) \<longrightarrow>
             0 \<le> entry_distance m d j \<and>
             entry_distance m d j < int (length (replicate (ringSize + 1) ([]::string list)))"
    using assms by auto
  from kRingDistances_loop_eq[of 0 n m a d "replicate (ringSize + 1) []", OF _ this]
  have "kRingDistances_loop m a d n 0 (replicate (ringSize + 1) []) =
          Inr (map (\<lambda>r. replicate (ringSize + 1) [] ! r @ ids_from m a d n 0 r)
                 [0..<ringSize + 1])"
    by simp
  also have "map (\<lambda>r. replicate (ringSize + 1) [] ! r @ ids_from m a d n 0 r) [0..<ringSize + 1]
               = map (ring_ids m a d n) [0..<ringSize + 1]"
  proof (rule map_cong)
    fix r assume "r \<in> set [0..<ringSize + 1]"
    then have "r < ringSize + 1" by auto
    then have "replicate (ringSize + 1) ([]::string list) ! r = []"
      by (rule nth_replicate)
    then show "replicate (ringSize + 1) [] ! r @ ids_from m a d n 0 r = ring_ids m a d n r"
      by (simp only: ring_ids_ids_from append_Nil)
  qed simp
  finally show ?thesis .
qed

lemma indicator_sum:
  "sum_list (map (\<lambda>r. if Q \<and> v = int r then 1 else 0) [0..<R])
     = (if Q \<and> 0 \<le> v \<and> v < int R then (1::nat) else 0)"
  by (induction R) auto

lemma ring_filter_sum:
  "sum_list (map (\<lambda>r. length (filter (\<lambda>j. Q j \<and> f j = int r) ks)) [0..<R]) \<le> length ks"
proof (induction ks)
  case Nil
  then show ?case by simp
next
  case (Cons j ks)
  have "sum_list (map (\<lambda>r. length (filter (\<lambda>j. Q j \<and> f j = int r) (j # ks))) [0..<R])
          = sum_list (map (\<lambda>r. (if Q j \<and> f j = int r then 1 else 0)
                                 + length (filter (\<lambda>j. Q j \<and> f j = int r) ks)) [0..<R])"
    by (rule arg_cong[where f = sum_list], rule map_cong) auto
  also have "\<dots> = sum_list (map (\<lambda>r. if Q j \<and> f j = int r then 1 else 0) [0..<R])
                   + sum_list (map (\<lambda>r. length (filter (\<lambda>j. Q j \<and> f j = int r) ks)) [0..<R])"
    by (rule sum_list_addf)
  also have "\<dots> \<le> 1 + length ks"
    using Cons.IH by (simp add: indicator_sum)
  finally show ?case by simp
qed

lemma rings_total:
  "length (concat (map (ring_ids m a d n) [0..<R])) \<le> nat n"
proof -
  have "length (concat (map (ring_ids m a d n) [0..<R]))
          = sum_list (map (\<lambda>r. length (filter (\<lambda>j. buffer_entry m a j \<noteq> (0, 0) \<and>
                                   entry_distance m d j = int r) [0..<nat n])) [0..<R])"
    by (simp add: length_concat ring_ids_def comp_def)
  also have "\<dots> \<le> length [0..<nat n]"
    by (rule ring_filter_sum)
  finally show ?thesis by simp
qed

lemma kRingDistances_eq:
  assumes split: "h3AddressToSplitLong h3Address = (lower, upper)"
    and c1: "calloc (H3_maxKringSize eng ringSize) (sizeOfH3Index eng) w = (kRings, w1)"
    and c2: "calloc (H3_maxKringSize eng ringSize) SZ_INT w1 = (distances, w2)"
    and range: "\<forall>k < nat (H3_maxKringSize eng ringSize).
        buffer_entry (H3_kRingDistances eng lower upper ringSize kRings distances (mem w2))
          kRings k \<noteq> (0, 0) \<longrightarrow>
        0 \<le> entry_distance
               (H3_kRingDistances eng lower upper ringSize kRings distances (mem w2))
               distances k \<and>
        entry_distance (H3_kRingDistances eng lower upper ringSize kRings distances (mem w2))
          distances k \<le> int ringSize"
  shows "fst (kRingDistances eng h3Address ringSize w) =
           Inr (map (ring_ids
                       (H3_kRingDistances eng lower upper ringSize kRings distances (mem w2))
                       kRings distances (H3_maxKringSize eng ringSize))
                  [0..<ringSize + 1])"
proof -
  let ?n = "H3_maxKringSize eng ringSize"
  let ?v = "invoke ''maxKringSize'' (Some ?n) (mem w) w"
  let ?c1 = "calloc ?n (sizeOfH3Index eng) ?v"
  have a1: "fst ?c1 = kRings" "mem (snd ?c1) = mem w1" "fresh (snd ?c1) = fresh w1"
    "allocated (snd ?c1) = allocated w1"
    using calloc_invoke[of "mem w" w ?n "sizeOfH3Index eng" "''maxKringSize''" "Some ?n"] c1
    by simp_all
  let ?c2 = "calloc ?n SZ_INT (snd ?c1)"
  have a2: "fst ?c2 = distances" "mem (snd ?c2) = mem w2"
    using calloc_agree[OF a1(2,3,4), of ?n SZ_INT] c2 by simp_all
  let ?m = "H3_kRingDistances eng lower upper ringSize kRings distances (mem w2)"
  have loop: "kRingDistances_loop ?m kRings distances ?n 0 (replicate (ringSize + 1) [])
                = Inr (map (ring_ids ?m kRings distances ?n) [0..<ringSize + 1])"
    by (rule kRingDistances_loop_rings[OF range])
  show ?thesis
    using split a1(1) a2 loop
    by (simp add: kRingDistances_def Let_def split_beta del: replicate_Suc upt_Suc)
qed

text \<open>The test engine writes two identifiers with a sentinel between them.\<close>

lemma test_ring_cells:
  "HEAP32 (test_ring p m) i =
     (if i = p div 4 then 1 else if i = p div 4 + 1 then 2
      else if i = p div 4 + 2 then 0 else if i = p div 4 + 3 then 0
      else if i = p div 4 + 4 then 3 else if i = p div 4 + 5 then 4
      else HEAP32 m i)"
  by (simp add: test_ring_def)

lemma test_entry_strings:
  "entry_to_string (1, 2) = ''200000001''" "entry_to_string (3, 4) = ''400000003''"
  by (simp_all add: entry_to_string_def splitLongToH3Address_def hexFrom32Bit_def
      hex_digits.simps zeroPad_eq digit_char_def replicate7)

lemma test_ring_entries:
  assumes "4 dvd p" and zero: "\<forall>i. p div 4 + 6 \<le> i \<longrightarrow> HEAP32 m i = 0"
  shows "buffer_entry (test_ring p m) p 0 = (1, 2)"
    and "buffer_entry (test_ring p m) p 1 = (0, 0)"
    and "buffer_entry (test_ring p m) p 2 = (3, 4)"
    and "3 \<le> k \<Longrightarrow> buffer_entry (test_ring p m) p k = (0, 0)"
proof -
  obtain q where p: "p = 4 * q" using assms(1) by (auto elim: dvdE)
  have idx: "\<And>j. (p + 8 * j) div 4 = q + 2 * j" "\<And>j. (p + 8 * j + 4) div 4 = q + 2 * j + 1"
    "p div 4 = q"
    using p by simp_all
  show "buffer_entry (test_ring p m) p 0 = (1, 2)"
    using idx(1)[of 0] idx(2)[of 0]
    by (simp add: buffer_entry_def getValue_i32_def test_ring_cells idx(3))
  show "buffer_entry (test_ring p m) p 1 = (0, 0)"
    using idx(1)[of 1] idx(2)[of 1]
    by (simp add: buffer_entry_def getValue_i32_def test_ring_cells idx(3))
  show "buffer_entry (test_ring p m) p 2 = (3, 4)"
    using idx(1)[of 2] idx(2)[of 2]
    by (simp add: buffer_entry_def getValue_i32_def test_ring_cells idx(3))
  show "buffer_entry (test_ring p m) p k = (0, 0)" if "3 \<le> k"
  proof -
    have "HEAP32 m (q + 2 * k) = 0" "HEAP32 m (q + 2 * k + 1) = 0"
      using zero that idx(3) by simp_all
    then show ?thesis using that
      by (simp add: buffer_entry_def getValue_i32_def test_ring_cells idx)
  qed
qed

lemma test_ring_ids:
  assumes "4 dvd p" and "\<forall>i. p div 4 + 6 \<le> i \<longrightarrow> HEAP32 m i = 0" and "3 \<le> n"
  shows "buffer_ids (test_ring p m) p n = [''200000001'', ''400000003'']"
proof -
  note e = test_ring_entries[OF assms(1,2)]
  have "[0..<nat n] = [0, 1, 2] @ [3..<nat n]"
  proof -
    have n: "nat n = 3 + (nat n - 3)" using assms(3) by simp
    have "[0..<3 + (nat n - 3)] = [0..<3] @ [3..<3 + (nat n - 3)]"
      by (rule upt_add_eq_append) simp
    then have "[0..<nat n] = [0..<3] @ [3..<nat n]" using n by simp
    then show ?thesis by (simp add: upt3)
  qed
  moreover have "filter (\<lambda>e. e \<noteq> (0, 0)) (map (buffer_entry (test_ring p m) p) [3..<nat n]) = []"
    using e(4) by (simp add: filter_empty_conv)
  ultimately show ?thesis
    using e(1,2,3) by (simp add: buffer_ids_def test_entry_strings)
qed

lemma test_ring_ids2:
  assumes "4 dvd p" and "\<forall>i. p div 4 + 6 \<le> i \<longrightarrow> HEAP32 m i = 0"
  shows "buffer_ids (test_ring p m) p 2 = [''200000001'']"
proof -
  note e = test_ring_entries[OF assms(1,2)]
  have "[0..<nat 2] = [0, 1]" by (simp add: upt_rec)
  then show ?thesis using e(1,2) by (simp add: buffer_ids_def test_entry_strings)
qed

lemma zero_test_memory [simp]: "HEAP32 (zero_fill p len test_memory) i = 0"
  by (simp add: zero_fill_def test_memory_def)

lemma test_sizes [simp]:
  "sizeOfH3Index test_engine = 8" "sizeOfH3Index test_engine_ok = 8"
  by (simp_all add: test_engine_def test_engine_ok_def)

lemma calloc_test:
  "0 \<le> n \<Longrightarrow> fst (calloc n b test_runtime) = 1024"
  "0 \<le> n \<Longrightarrow> mem (snd (calloc n b test_runtime)) = zero_fill 1024 (nat n * b) test_memory"
  by (simp_all add: calloc_def malloc_def test_runtime_def Let_def)

lemma test_ring_fresh:
  "3 \<le> n \<Longrightarrow>
     buffer_ids (test_ring 1024 (zero_fill 1024 len test_memory)) 1024 n
       = [''200000001'', ''400000003'']"
  by (rule test_ring_ids) simp_all

lemma test_ring_fresh2:
  "buffer_ids (test_ring 1024 (zero_fill 1024 len test_memory)) 1024 2 = [''200000001'']"
  by (rule test_ring_ids2) simp_all

lemma HEAPU32_set_frame:
  "i < index \<or> index + length vs \<le> i \<Longrightarrow> HEAP32 (HEAPU32_set vs index m) i = HEAP32 m i"
  by (induction vs arbitrary: index m) auto

lemma storeArrayOfHexagons_loop_frame:
  "cAddress div SZ_INT + 2 * length hexagons \<le> i \<Longrightarrow>
     HEAP32 (storeArrayOfHexagons_loop cAddress hexagons k m) i = HEAP32 m i"
proof (induction cAddress hexagons k m rule: storeArrayOfHexagons_loop.induct)
  case (1 cAddress hexagons k m)
  show ?case
  proof (cases "k < length hexagons")
    case True
    then show ?thesis
      using 1
      by (subst storeArrayOfHexagons_loop.simps)
         (simp add: split_beta HEAPU32_set_frame)
  next
    case False
    then show ?thesis by (subst storeArrayOfHexagons_loop.simps) simp
  qed
qed

lemma storeArrayOfHexagons_frame:
  "cAddress div 4 + 2 * length hexagons \<le> i \<Longrightarrow>
     HEAP32 (storeArrayOfHexagons cAddress hexagons m) i = HEAP32 m i"
  using storeArrayOfHexagons_loop_frame[of cAddress hexagons i 0 m]
  by (simp add: storeArrayOfHexagons_def SZ_INT_def)

lemma test_ring_stored:
  assumes "length hs \<le> 3"
  shows "buffer_ids
           (test_ring 2048
              (zero_fill 2048 24 (storeArrayOfHexagons 1024 hs (zero_fill 1024 len test_memory))))
           2048 3
         = [''200000001'', ''400000003'']"
proof -
  let ?m = "zero_fill 2048 24 (storeArrayOfHexagons 1024 hs (zero_fill 1024 len test_memory))"
  have zero: "\<forall>i. 2048 div 4 + 6 \<le> i \<longrightarrow> HEAP32 ?m i = 0"
    using assms by (auto simp: zero_fill_def storeArrayOfHexagons_frame test_memory_def)
  show ?thesis
    by (rule test_ring_ids[OF _ zero]) simp_all
qed

lemma polyfill_build_test:
  "\<exists>w1. coordinatesToGeoPolygon test_engine_ok [[(0, 0), (0, 1), (1, 0)]] False test_runtime
          = (Inr 1024, w1) \<and>
        fst (calloc 3 8 w1) = 3072 \<and>
        buffer_ids (test_ring 3072 (mem (snd (calloc 3 8 w1)))) 3072 3
          = [''200000001'', ''400000003'']"
proof -
  let ?b = "coordinatesToGeoPolygon test_engine_ok [[(0, 0), (0, 1), (1, 0)]] False test_runtime"
  have b: "fst ?b = Inr 1024" "allocated (snd ?b) = [1024, 2048]"
    "fresh (snd ?b) = (\<lambda>k. 1024 * (k + 1))"
    by (simp_all add: coordinatesToGeoPolygon_def polygonArrayToGeofence_def calloc_def
        malloc_def test_engine_def test_engine_ok_def test_runtime_def Let_def)
  have cells: "\<forall>i. 774 \<le> i \<longrightarrow> HEAP32 (mem (snd ?b)) i = 0"
    by (simp add: coordinatesToGeoPolygon_def polygonArrayToGeofence_def calloc_def
        malloc_def test_engine_def test_engine_ok_def test_runtime_def Let_def
        setValue_i32_def SZ_INT_def zero_fill_def test_memory_def)
  let ?m = "zero_fill 3072 24 (mem (snd ?b))"
  have zero: "\<forall>i. 3072 div 4 + 6 \<le> i \<longrightarrow> HEAP32 ?m i = 0"
    using cells by (simp add: zero_fill_def)
  have ids: "buffer_ids (test_ring 3072 ?m) 3072 3 = [''200000001'', ''400000003'']"
    by (rule test_ring_ids[OF _ zero]) simp_all
  have c: "fst (calloc 3 8 (snd ?b)) = 3072" "mem (snd (calloc 3 8 (snd ?b))) = ?m"
    by (simp_all add: calloc_def malloc_def Let_def b)
  have "?b = (Inr 1024, snd ?b)" using b(1) by (cases ?b) auto
  then show ?thesis using c ids by auto
qed

lemma upt19:
  "[0..<19] = [0, 1, 2, 3, 4, 5, 6, 7, 8, 9, 10, 11, 12, 13, 14, 15, 16, 17, 18]"
  by (simp add: upt_rec)

lemma kRingDistances_mem:
  "fst (calloc 19 8 test_runtime) = 1024"
  "fst (calloc 19 SZ_INT (snd (calloc 19 8 test_runtime))) = 2048"
  "mem (snd (calloc 19 SZ_INT (snd (calloc 19 8 test_runtime))))
     = zero_fill 2048 76 (zero_fill 1024 152 test_memory)"
  by (simp_all add: calloc_def malloc_def test_runtime_def Let_def SZ_INT_def)

lemma kRingDistances_cells:
  assumes "k < 19"
  shows "buffer_entry
     (test_rings 1024 2048 (zero_fill 2048 76 (zero_fill 1024 152 test_memory)))
     1024 k
   = (if k = 0 then (1, 2) else if k = 2 then (3, 4) else (0, 0))"
  and "entry_distance
     (test_rings 1024 2048 (zero_fill 2048 76 (zero_fill 1024 152 test_memory)))
     2048 k
   = (if k = 2 then 1 else 0)"
proof -
  have idx: "(1024 + 8 * k) div 4 = 256 + 2 * k" "(1024 + 8 * k + 4) div 4 = 256 + 2 * k + 1"
    "(2048 + 4 * k) div 4 = 512 + k"
    by simp_all
  show "buffer_entry
     (test_rings 1024 2048 (zero_fill 2048 76 (zero_fill 1024 152 test_memory)))
     1024 k
   = (if k = 0 then (1, 2) else if k = 2 then (3, 4) else (0, 0))"
    using assms
    by (auto simp: buffer_entry_def getValue_i32_def idx test_rings_def test_ring_def
        zero_fill_def test_memory_def)
  show "entry_distance
     (test_rings 1024 2048 (zero_fill 2048 76 (zero_fill 1024 152 test_memory)))
     2048 k
   = (if k = 2 then 1 else 0)"
    using assms
    by (auto simp: entry_distance_def getValue_i32_def idx test_rings_def test_ring_def
        zero_fill_def test_memory_def)
qed

lemma test_rings_ids:
  "map (ring_ids (test_rings 1024 2048 (zero_fill 2048 76 (zero_fill 1024 152 test_memory)))
          1024 2048 19) [0..<2 + 1]
     = [[''200000001''], [''400000003''], []]"
proof -
  have "[0..<2 + 1] = [0, 1, 2::nat]" by (simp add: upt_rec)
  then show ?thesis
    by (simp add: ring_ids_def upt19 kRingDistances_cells test_entry_strings)
qed

lemma sample_buffer_ids:
  "buffer_ids sample_buffer 1000 3 = [''200000001'', ''400000003'']"
  by (simp add: buffer_ids_def upt3 buffer_entry_def getValue_i32_def sample_buffer_def
      test_memory_def test_entry_strings)

lemma kRingDistances_let:
  "(let (lower, upper) = h3AddressToSplitLong h3Address;
        maxCount = H3_maxKringSize eng ringSize;
        (kRings, w1) = calloc maxCount (sizeOfH3Index eng) w;
        (distances, w2) = calloc maxCount SZ_INT w1;
        filled = H3_kRingDistances eng lower upper ringSize kRings distances (mem w2)
    in (\<forall>k < nat maxCount.
          buffer_entry filled kRings k \<noteq> (0, 0) \<longrightarrow>
          0 \<le> entry_distance filled distances k \<and>
          entry_distance filled distances k \<le> int ringSize) \<longrightarrow>
       fst (kRingDistances eng h3Address ringSize w) =
         Inr (map (ring_ids filled kRings distances maxCount) [0..<ringSize + 1]))"
proof -
  obtain lower upper where s: "h3AddressToSplitLong h3Address = (lower, upper)"
    by (cases "h3AddressToSplitLong h3Address")
  obtain kRings w1 where
    c1: "calloc (H3_maxKringSize eng ringSize) (sizeOfH3Index eng) w = (kRings, w1)"
    by (cases "calloc (H3_maxKringSize eng ringSize) (sizeOfH3Index eng) w")
  obtain distances w2 where
    c2: "calloc (H3_maxKringSize eng ringSize) SZ_INT w1 = (distances, w2)"
    by (cases "calloc (H3_maxKringSize eng ringSize) SZ_INT w1")
  show ?thesis
    using kRingDistances_eq[OF s c1 c2]
    by (simp only: s c1 c2 Let_def split_conv) blast
qed

text \<open>
  C7. Every query that sizes its output buffer by a capacity returns exactly the
  identifiers of the engine-filled buffer over that whole capacity. Reading a buffer with
  \<open>readArrayOfHexagons\<close> over a capacity returns, in buffer order, the strings of exactly
  those entries whose word pair is not \<open>(0, 0)\<close>: a sentinel entry is skipped wherever it
  lies, also between two identifiers, and the scan does not stop at it. The result of
  \<open>kRing\<close>, \<open>h3ToChildren\<close>, \<open>getH3IndexesFromUnidirectionalEdge\<close> and
  \<open>getH3UnidirectionalEdgesFromHexagon\<close> is that list for the buffer the engine filled, read
  with the capacity the buffer was allocated with; so is the result of \<open>hexRing\<close>,
  \<open>compact\<close> (on a non-empty set) and \<open>uncompact\<close> (on a non-empty set and a valid
  resolution) whenever the engine reports success, and of \<open>polyfill\<close> (on a non-empty
  polygon and a valid resolution) whenever the polygon struct could be built.
  \<open>kRingDistances\<close>, which reads its buffer with a loop of its own, returns for each
  distance the non-sentinel entries stored with that distance, in buffer order, provided
  the engine stores with every identifier a distance between 0 and the ring size. Hence
  the number of identifiers returned, over all rings in the case of \<open>kRingDistances\<close>,
  is at most the capacity. A capacity is an integer of the engine, and a negative one
  reads nothing: the bound is \<open>nat capacity\<close>, the capacity itself when it is not negative.
\<close>

theorem array_queries_skip_sentinels:
  "readArrayOfHexagons m cAddress capacity =
     map entry_to_string
       (filter (\<lambda>e. e \<noteq> (0, 0)) (map (buffer_entry m cAddress) [0..<nat capacity])) \<and>
   readArrayOfHexagons m cAddress capacity = buffer_ids m cAddress capacity \<and>
   length (buffer_ids m cAddress capacity) \<le> nat capacity \<and>
   fst (kRing eng h3Address ringSize w) =
     (let (lower, upper) = h3AddressToSplitLong h3Address;
          maxCount = H3_maxKringSize eng ringSize;
          (hexagons, w1) = calloc maxCount (sizeOfH3Index eng) w
      in buffer_ids (H3_kRing eng lower upper ringSize hexagons (mem w1)) hexagons maxCount) \<and>
   fst (h3ToChildren eng h3Address res w) =
     (let (lower, upper) = h3AddressToSplitLong h3Address;
          maxCount = H3_maxH3ToChildrenSize eng lower upper res;
          (hexagons, w1) = calloc maxCount (sizeOfH3Index eng) w
      in buffer_ids (H3_h3ToChildren eng lower upper res hexagons (mem w1)) hexagons
           maxCount) \<and>
   fst (hexRing eng h3Address ringSize w) =
     (let maxCount = int (if ringSize = 0 then 1 else 6 * ringSize);
          (hexagons, w1) = calloc maxCount (sizeOfH3Index eng) w;
          (lower, upper) = h3AddressToSplitLong h3Address;
          (retVal, m2) = H3_hexRing eng lower upper ringSize hexagons (mem w1)
      in if retVal \<noteq> 0
         then Inl (Failure ''Failed to get hexRing (encountered a pentagon?)'')
         else Inr (buffer_ids m2 hexagons maxCount)) \<and>
   (validateRes res = None \<and> \<not> polyfill_empty coordinates \<longrightarrow>
      fst (polyfill eng coordinates res isGeoJson w) =
        (case coordinatesToGeoPolygon eng (polyfill_wrap coordinates) isGeoJson w of
           (Inl e, w1) \<Rightarrow> Inl e
         | (Inr geoPolygon, w1) \<Rightarrow>
             let arrayLen = H3_maxPolyfillSize eng geoPolygon res (mem w1);
                 (hexagons, w2) = calloc arrayLen (sizeOfH3Index eng) w1
             in Inr (buffer_ids (H3_polyfill eng geoPolygon res hexagons (mem w2)) hexagons
                       arrayLen))) \<and>
   (h3Set \<noteq> [] \<longrightarrow>
      fst (compact eng h3Set w) =
        (let count = length h3Set;
             (set, w1) = calloc (int count) (sizeOfH3Index eng) w;
             w2 = w1\<lparr>mem := storeArrayOfHexagons set h3Set (mem w1)\<rparr>;
             (compactedSet, w3) = calloc (int count) (sizeOfH3Index eng) w2;
             (retVal, m4) = H3_compact eng set compactedSet count (mem w3)
         in if retVal \<noteq> 0
            then Inl (Failure
                   ''Failed to compact, malformed input data (duplicate hexagons?)'')
            else Inr (buffer_ids m4 compactedSet (int count)))) \<and>
   (validateRes res = None \<and> compactedSet \<noteq> [] \<longrightarrow>
      fst (uncompact eng compactedSet res w) =
        (let count = length compactedSet;
             (set, w1) = calloc (int count) (sizeOfH3Index eng) w;
             w2 = w1\<lparr>mem := storeArrayOfHexagons set compactedSet (mem w1)\<rparr>;
             maxUncompactedNum = H3_maxUncompactSize eng set count res (mem w2);
             (uncompactedSet, w3) = calloc maxUncompactedNum (sizeOfH3Index eng) w2;
             (retVal, m4) =
               H3_uncompact eng set count uncompactedSet maxUncompactedNum res (mem w3)
         in if retVal \<noteq> 0
            then Inl (Failure ''Failed to uncompact (bad resolution?)'')
            else Inr (buffer_ids m4 uncompactedSet maxUncompactedNum))) \<and>
   fst (getH3IndexesFromUnidirectionalEdge eng h3Address w) =
     (let (lower, upper) = h3AddressToSplitLong h3Address;
          (hexagons, w1) = calloc 2 (sizeOfH3Index eng) w
      in buffer_ids (H3_getH3IndexesFromUnidirectionalEdge eng lower upper hexagons (mem w1))
           hexagons 2) \<and>
   fst (getH3UnidirectionalEdgesFromHexagon eng h3Address w) =
     (let (lower, upper) = h3AddressToSplitLong h3Address;
          (edges, w1) = calloc 6 (sizeOfH3Index eng) w
      in buffer_ids (H3_getH3UnidirectionalEdgesFromHexagon eng lower upper edges (mem w1))
           edges 6) \<and>
   (let (lower, upper) = h3AddressToSplitLong h3Address;
        maxCount = H3_maxKringSize eng ringSize;
        (kRings, w1) = calloc maxCount (sizeOfH3Index eng) w;
        (distances, w2) = calloc maxCount SZ_INT w1;
        filled = H3_kRingDistances eng lower upper ringSize kRings distances (mem w2)
    in (\<forall>k < nat maxCount.
          buffer_entry filled kRings k \<noteq> (0, 0) \<longrightarrow>
          0 \<le> entry_distance filled distances k \<and>
          entry_distance filled distances k \<le> int ringSize) \<longrightarrow>
       fst (kRingDistances eng h3Address ringSize w) =
         Inr (map (ring_ids filled kRings distances maxCount) [0..<ringSize + 1])) \<and>
   length (concat (map (ring_ids m cAddress dAddress capacity) [0..<rings])) \<le> nat capacity"
  apply (intro conjI impI)
  subgoal by (simp add: readArrayOfHexagons_eq buffer_ids_def)
  subgoal by (rule readArrayOfHexagons_eq)
  subgoal by (rule length_buffer_ids)
  subgoal by (rule kRing_eq)
  subgoal by (rule h3ToChildren_eq)
  subgoal by (rule hexRing_eq)
  subgoal by (rule polyfill_eq) simp_all
  subgoal by (rule compact_eq) simp
  subgoal by (rule uncompact_eq) simp_all
  subgoal by (rule edge_indexes_eq)
  subgoal by (rule edges_from_eq)
  subgoal by (rule kRingDistances_let)
  subgoal by (rule rings_total)
  done

theorem array_queries_skip_sentinels_witness:
  "readArrayOfHexagons sample_buffer 1000 3 = [''200000001'', ''400000003''] \<and>
   fst (kRing test_engine (Str ''8928308280fffff'') 1 test_runtime)
     = [''200000001'', ''400000003''] \<and>
   fst (h3ToChildren test_engine (Str ''8928308280fffff'') (Number 10) test_runtime)
     = [''200000001'', ''400000003''] \<and>
   fst (hexRing test_engine_ok (Str ''8928308280fffff'') 2 test_runtime)
     = Inr [''200000001'', ''400000003''] \<and>
   validateRes (Number 9) = None \<and>
   \<not> polyfill_empty (Loops [[(0, 0), (0, 1), (1, 0)]]) \<and>
   fst (polyfill test_engine_ok (Loops [[(0, 0), (0, 1), (1, 0)]]) (Number 9) False
          test_runtime)
     = Inr [''200000001'', ''400000003''] \<and>
   fst (compact test_engine_ok
          [Str ''8928308280fffff'', Str ''8928308280fffff'', Str ''8928308280fffff'']
          test_runtime)
     = Inr [''200000001'', ''400000003''] \<and>
   fst (uncompact test_engine_ok [Str ''8928308280fffff''] (Number 9) test_runtime)
     = Inr [''200000001'', ''400000003''] \<and>
   fst (getH3IndexesFromUnidirectionalEdge test_engine (Str ''115283473fffffff'') test_runtime)
     = [''200000001''] \<and>
   fst (getH3UnidirectionalEdgesFromHexagon test_engine (Str ''8928308280fffff'') test_runtime)
     = [''200000001'', ''400000003''] \<and>
   fst (kRingDistances test_engine (Str ''8928308280fffff'') 2 test_runtime)
     = Inr [[''200000001''], [''400000003''], []] \<and>
   length (concat [[''200000001''], [''400000003''], []]) \<le> nat 19"
proof -
  note t = array_queries_skip_sentinels
  have read: "readArrayOfHexagons sample_buffer 1000 3 = [''200000001'', ''400000003'']"
    using t [where m = sample_buffer and cAddress = 1000 and capacity = 3,
        THEN conjunct2, THEN conjunct1]
    by (simp add: sample_buffer_ids)
  have ring: "fst (kRing test_engine (Str ''8928308280fffff'') 1 test_runtime)
                = [''200000001'', ''400000003'']"
    using t [where eng = test_engine and h3Address = "Str ''8928308280fffff''"
        and ringSize = 1 and w = test_runtime,
        THEN conjunct2, THEN conjunct2, THEN conjunct2, THEN conjunct1]
    by (simp add: split_test Let_def split_beta calloc_test test_ring_fresh test_engine_def)
  have children:
    "fst (h3ToChildren test_engine (Str ''8928308280fffff'') (Number 10) test_runtime)
       = [''200000001'', ''400000003'']"
    using t [where eng = test_engine and h3Address = "Str ''8928308280fffff''"
        and res = "Number 10" and w = test_runtime,
        THEN conjunct2, THEN conjunct2, THEN conjunct2, THEN conjunct2, THEN conjunct1]
    by (simp add: split_test Let_def split_beta calloc_test test_ring_fresh test_engine_def)
  have hollow: "fst (hexRing test_engine_ok (Str ''8928308280fffff'') 2 test_runtime)
                  = Inr [''200000001'', ''400000003'']"
    using t [where eng = test_engine_ok and h3Address = "Str ''8928308280fffff''"
        and ringSize = 2 and w = test_runtime,
        THEN conjunct2, THEN conjunct2, THEN conjunct2, THEN conjunct2, THEN conjunct2,
        THEN conjunct1]
    by (simp add: split_test Let_def split_beta calloc_test test_ring_fresh test_engine_def
        test_engine_ok_def)
  have v: "validateRes (Number 9) = None" by simp
  have ne: "\<not> polyfill_empty (Loops [[(0, 0), (0, 1), (1, 0)]])" by simp
  obtain w1 where b:
    "coordinatesToGeoPolygon test_engine_ok [[(0, 0), (0, 1), (1, 0)]] False test_runtime
       = (Inr 1024, w1)"
    "fst (calloc 3 8 w1) = 3072"
    "buffer_ids (test_ring 3072 (mem (snd (calloc 3 8 w1)))) 3072 3
       = [''200000001'', ''400000003'']"
    using polyfill_build_test by blast
  have fill:
    "fst (polyfill test_engine_ok (Loops [[(0, 0), (0, 1), (1, 0)]]) (Number 9) False
            test_runtime)
       = Inr [''200000001'', ''400000003'']"
    using t [where eng = test_engine_ok and coordinates = "Loops [[(0, 0), (0, 1), (1, 0)]]"
        and res = "Number 9" and isGeoJson = False and w = test_runtime,
        THEN conjunct2, THEN conjunct2, THEN conjunct2, THEN conjunct2, THEN conjunct2,
        THEN conjunct2, THEN conjunct1] v ne b
    by (simp add: Let_def split_beta test_engine_ok_def test_engine_def)
  have packed:
    "fst (compact test_engine_ok
            [Str ''8928308280fffff'', Str ''8928308280fffff'', Str ''8928308280fffff'']
            test_runtime)
       = Inr [''200000001'', ''400000003'']"
    using t [where eng = test_engine_ok
        and h3Set = "[Str ''8928308280fffff'', Str ''8928308280fffff'', Str ''8928308280fffff'']"
        and w = test_runtime,
        THEN conjunct2, THEN conjunct2, THEN conjunct2, THEN conjunct2, THEN conjunct2,
        THEN conjunct2, THEN conjunct2, THEN conjunct1]
      test_ring_stored [of "[Str ''8928308280fffff'', Str ''8928308280fffff'',
        Str ''8928308280fffff'']" 24]
    by (simp add: Let_def split_beta calloc_def malloc_def test_runtime_def
        test_engine_def test_engine_ok_def)
  have unpacked:
    "fst (uncompact test_engine_ok [Str ''8928308280fffff''] (Number 9) test_runtime)
       = Inr [''200000001'', ''400000003'']"
    using t [where eng = test_engine_ok and compactedSet = "[Str ''8928308280fffff'']"
        and res = "Number 9" and w = test_runtime,
        THEN conjunct2, THEN conjunct2, THEN conjunct2, THEN conjunct2, THEN conjunct2,
        THEN conjunct2, THEN conjunct2, THEN conjunct2, THEN conjunct1]
      v test_ring_stored [of "[Str ''8928308280fffff'']" 8]
    by (simp add: Let_def split_beta calloc_def malloc_def test_runtime_def
        test_engine_def test_engine_ok_def)
  have ends:
    "fst (getH3IndexesFromUnidirectionalEdge test_engine (Str ''115283473fffffff'')
            test_runtime)
       = [''200000001'']"
    using t [where eng = test_engine and h3Address = "Str ''115283473fffffff''"
        and w = test_runtime,
        THEN conjunct2, THEN conjunct2, THEN conjunct2, THEN conjunct2, THEN conjunct2,
        THEN conjunct2, THEN conjunct2, THEN conjunct2, THEN conjunct2, THEN conjunct1]
    by (simp add: split_edge_test Let_def split_beta calloc_test test_ring_fresh2
        test_engine_def)
  have edges:
    "fst (getH3UnidirectionalEdgesFromHexagon test_engine (Str ''8928308280fffff'')
            test_runtime)
       = [''200000001'', ''400000003'']"
    using t [where eng = test_engine and h3Address = "Str ''8928308280fffff''"
        and w = test_runtime,
        THEN conjunct2, THEN conjunct2, THEN conjunct2, THEN conjunct2, THEN conjunct2,
        THEN conjunct2, THEN conjunct2, THEN conjunct2, THEN conjunct2, THEN conjunct2,
        THEN conjunct1]
    by (simp add: split_test Let_def split_beta calloc_test test_ring_fresh test_engine_def)
  have n: "H3_maxKringSize test_engine 2 = 19" by (simp add: test_engine_def)
  have e: "\<And>lower upper p d m.
      H3_kRingDistances test_engine lower upper 2 p d m = test_rings p d m"
    by (simp add: test_engine_def)
  have rings:
    "fst (kRingDistances test_engine (Str ''8928308280fffff'') 2 test_runtime)
       = Inr [[''200000001''], [''400000003''], []]"
    using t [where eng = test_engine and h3Address = "Str ''8928308280fffff''"
        and ringSize = 2 and w = test_runtime,
        THEN conjunct2, THEN conjunct2, THEN conjunct2, THEN conjunct2, THEN conjunct2,
        THEN conjunct2, THEN conjunct2, THEN conjunct2, THEN conjunct2, THEN conjunct2,
        THEN conjunct2, THEN conjunct1] test_rings_ids
    by (simp add: split_test Let_def split_beta n e kRingDistances_mem kRingDistances_cells)
  have total: "length (concat [[''200000001''], [''400000003''], []]) \<le> nat 19"
    using t [where m = "test_rings 1024 2048 (zero_fill 2048 76 (zero_fill 1024 152 test_memory))"
        and cAddress = 1024 and dAddress = 2048 and capacity = 19 and rings = "2 + 1",
        THEN conjunct2, THEN conjunct2, THEN conjunct2, THEN conjunct2, THEN conjunct2,
        THEN conjunct2, THEN conjunct2, THEN conjunct2, THEN conjunct2, THEN conjunct2,
        THEN conjunct2, THEN conjunct2]
    by (simp only: test_rings_ids)
  show ?thesis
    using read ring children hollow v ne fill packed unpacked ends edges rings total
    by (intro conjI)
qed

end
